theory Spec2Isabelle
  imports Main
begin

section \<open>Strings and numbers of the platform\<close>

text \<open>
  A string is a list of 8-bit characters, read as the code units U+0000 to U+00FF of a
  JavaScript string. The only text of the program outside that range is the em dash of
  the two usage messages, which is kept as the three bytes of its UTF-8 form.

  A Number is an integer or NaN (\<open>None\<close>). Integers are unbounded here: the program's
  arithmetic is exact on them up to \<open>2^53\<close>, and the range limit of a Date
  (\<open>8.64e15\<close> milliseconds around the epoch) is not modelled.
\<close>

type_synonym jsnum = "int option"

definition isDigit :: "char \<Rightarrow> bool" where
  "isDigit c = (c \<in> set ''0123456789'')"

definition isSpace :: "char \<Rightarrow> bool" where
  \<comment> \<open>the class \<open>\s\<close>, which is also what \<open>trim\<close> and \<open>parseInt\<close> skip\<close>
  "isSpace c = (c \<in> set [CHR 0x09, CHR 0x0A, CHR 0x0B, CHR 0x0C, CHR 0x0D, CHR 0x20, CHR 0xA0])"

definition isLetter :: "char \<Rightarrow> bool" where
  \<comment> \<open>the class \<open>[a-z]\<close> under the flag \<open>i\<close>\<close>
  "isLetter c = (c \<in> set ''abcdefghijklmnopqrstuvwxyzABCDEFGHIJKLMNOPQRSTUVWXYZ'')"

definition upperChars :: string where
  "upperChars = ''ABCDEFGHIJKLMNOPQRSTUVWXYZ'' @
     [CHR 0xC0, CHR 0xC1, CHR 0xC2, CHR 0xC3, CHR 0xC4, CHR 0xC5, CHR 0xC6, CHR 0xC7,
      CHR 0xC8, CHR 0xC9, CHR 0xCA, CHR 0xCB, CHR 0xCC, CHR 0xCD, CHR 0xCE, CHR 0xCF,
      CHR 0xD0, CHR 0xD1, CHR 0xD2, CHR 0xD3, CHR 0xD4, CHR 0xD5, CHR 0xD6,
      CHR 0xD8, CHR 0xD9, CHR 0xDA, CHR 0xDB, CHR 0xDC, CHR 0xDD, CHR 0xDE]"

definition lowerChars :: string where
  "lowerChars = ''abcdefghijklmnopqrstuvwxyz'' @
     [CHR 0xE0, CHR 0xE1, CHR 0xE2, CHR 0xE3, CHR 0xE4, CHR 0xE5, CHR 0xE6, CHR 0xE7,
      CHR 0xE8, CHR 0xE9, CHR 0xEA, CHR 0xEB, CHR 0xEC, CHR 0xED, CHR 0xEE, CHR 0xEF,
      CHR 0xF0, CHR 0xF1, CHR 0xF2, CHR 0xF3, CHR 0xF4, CHR 0xF5, CHR 0xF6,
      CHR 0xF8, CHR 0xF9, CHR 0xFA, CHR 0xFB, CHR 0xFC, CHR 0xFD, CHR 0xFE]"

definition toLowerChar :: "char \<Rightarrow> char" where
  "toLowerChar c = (case map_of (zip upperChars lowerChars) c of Some l \<Rightarrow> l | None \<Rightarrow> c)"

definition toLowerCase :: "string \<Rightarrow> string" where
  "toLowerCase s = map toLowerChar s"

definition trim :: "string \<Rightarrow> string" where
  "trim s = rev (dropWhile isSpace (rev (dropWhile isSpace s)))"

definition startsWith :: "string \<Rightarrow> string \<Rightarrow> bool" where
  "startsWith s p = (take (length p) s = p)"

fun split_on :: "char \<Rightarrow> string \<Rightarrow> string list" where
  "split_on c [] = [[]]"
| "split_on c (x # xs) =
     (if x = c then [] # split_on c xs
      else (case split_on c xs of [] \<Rightarrow> [[x]] | p # ps \<Rightarrow> (x # p) # ps))"

fun replace_first :: "string \<Rightarrow> string \<Rightarrow> string \<Rightarrow> string" where
  \<comment> \<open>\<open>s.replace(pat, rep)\<close> with a string pattern: the first occurrence only\<close>
  "replace_first pat rep [] = (if pat = [] then rep else [])"
| "replace_first pat rep (x # xs) =
     (if startsWith (x # xs) pat then rep @ drop (length pat) (x # xs)
      else x # replace_first pat rep xs)"

definition digitValue :: "char \<Rightarrow> int" where
  "digitValue c =
     (case map_of (zip ''0123456789abcdefABCDEF''
                       [0, 1, 2, 3, 4, 5, 6, 7, 8, 9, 10, 11, 12, 13, 14, 15, 10, 11, 12, 13, 14, 15]) c
      of Some v \<Rightarrow> v | None \<Rightarrow> 0)"

definition isHexDigit :: "char \<Rightarrow> bool" where
  "isHexDigit c = (c \<in> set ''0123456789abcdefABCDEF'')"

definition radixValue :: "int \<Rightarrow> string \<Rightarrow> int" where
  "radixValue r ds = foldl (\<lambda>a c. r * a + digitValue c) 0 ds"

definition parseInt :: "string \<Rightarrow> jsnum" where
  \<comment> \<open>\<open>parseInt(s)\<close> with no radix: leading white space, a sign, a \<open>0x\<close> prefix, then the
      longest run of digits; NaN when that run is empty\<close>
  "parseInt s =
     (let s1 = dropWhile isSpace s;
          sign = (if startsWith s1 ''-'' then - 1 else 1);
          s2 = (if startsWith s1 ''-'' \<or> startsWith s1 ''+'' then drop 1 s1 else s1)
      in if startsWith s2 ''0x'' \<or> startsWith s2 ''0X''
         then (let z = takeWhile isHexDigit (drop 2 s2)
               in if z = [] then None else Some (sign * radixValue 16 z))
         else (let z = takeWhile isDigit s2
               in if z = [] then None else Some (sign * radixValue 10 z)))"

definition num_add :: "jsnum \<Rightarrow> jsnum \<Rightarrow> jsnum" where
  "num_add a b = (case (a, b) of (Some x, Some y) \<Rightarrow> Some (x + y) | _ \<Rightarrow> None)"

definition num_mul :: "jsnum \<Rightarrow> jsnum \<Rightarrow> jsnum" where
  "num_mul a b = (case (a, b) of (Some x, Some y) \<Rightarrow> Some (x * y) | _ \<Rightarrow> None)"

definition truthy_num :: "jsnum \<Rightarrow> bool" where
  \<comment> \<open>NaN and zero are falsy\<close>
  "truthy_num a = (case a of None \<Rightarrow> False | Some x \<Rightarrow> x \<noteq> 0)"

section \<open>parseDuration\<close>

definition match_digits_then :: "char \<Rightarrow> string \<Rightarrow> string option" where
  \<comment> \<open>\<open>(\d+)c\<close> under the flag \<open>i\<close>, tried at the head of the string: the run of digits
      there, when it is not empty and the letter follows it. A shorter run is followed by
      a digit, so giving digits back never helps.\<close>
  "match_digits_then c s =
     (let ds = takeWhile isDigit s; r = dropWhile isDigit s
      in if ds \<noteq> [] \<and> r \<noteq> [] \<and> toLowerChar (hd r) = c then Some ds else None)"

fun search_digits_then :: "char \<Rightarrow> string \<Rightarrow> string option" where
  \<comment> \<open>\<open>s.match(/(\d+)c/i)\<close>: the leftmost position where the pattern matches\<close>
  "search_digits_then c [] = None"
| "search_digits_then c (x # xs) =
     (case match_digits_then c (x # xs) of
        Some ds \<Rightarrow> Some ds
      | None \<Rightarrow> search_digits_then c xs)"

definition parseDuration :: "string \<Rightarrow> jsnum" where
  "parseDuration duration =
     (let minutes = Some 0;
          hourMatch = search_digits_then (CHR ''h'') duration;
          minMatch = search_digits_then (CHR ''m'') duration;
          minutes = (case hourMatch of
                       Some g \<Rightarrow> num_add minutes (num_mul (parseInt g) (Some 60))
                     | None \<Rightarrow> minutes);
          minutes = (case minMatch of
                       Some g \<Rightarrow> num_add minutes (parseInt g)
                     | None \<Rightarrow> minutes)
      in if hourMatch = None \<and> minMatch = None
         then (if truthy_num (parseInt duration) then parseInt duration else Some 60)
         else minutes)"

section \<open>The platform's Date\<close>

text \<open>
  A Date holds a time value in milliseconds, or is an Invalid Date (\<open>None\<close>). The
  operations follow the definitions of the language standard (Day, TimeWithinDay,
  DayFromYear, MakeDay, MakeTime, MakeDate). The program only uses the local-time
  accessors, so the time value kept here is the local one, for a time zone whose offset
  from UTC is constant.
\<close>

type_synonym jsdate = "int option"

definition msPerDay :: int where "msPerDay = 86400000"
definition msPerHour :: int where "msPerHour = 3600000"
definition msPerMinute :: int where "msPerMinute = 60000"
definition msPerSecond :: int where "msPerSecond = 1000"

definition Day :: "int \<Rightarrow> int" where
  "Day t = t div msPerDay"

definition TimeWithinDay :: "int \<Rightarrow> int" where
  "TimeWithinDay t = t mod msPerDay"

definition DayFromYear :: "int \<Rightarrow> int" where
  "DayFromYear y =
     365 * (y - 1970) + (y - 1969) div 4 - (y - 1901) div 100 + (y - 1601) div 400"

definition isLeapYear :: "int \<Rightarrow> bool" where
  "isLeapYear y = (y mod 4 = 0 \<and> (y mod 100 \<noteq> 0 \<or> y mod 400 = 0))"

function year_up :: "int \<Rightarrow> int \<Rightarrow> int" where
  "year_up y d = (if DayFromYear (y + 1) \<le> d then year_up (y + 1) d else y)"
  by pat_completeness auto
termination
proof (relation "measure (\<lambda>(y, d). nat (d + 1 - DayFromYear (y + 1)))")
  show "wf (measure (\<lambda>(y, d). nat (d + 1 - DayFromYear (y + 1))))" by simp
next
  fix y d :: int
  assume reached: "DayFromYear (y + 1) \<le> d"
  have q4: "(y + 1 - 1969) div 4 \<le> (y + 1 + 1 - 1969) div 4"
    by (intro zdiv_mono1) simp_all
  have "(y + 1 + 1 - 1901) div 100 \<le> (y + 1 - 1901 + 100) div 100"
    by (intro zdiv_mono1) simp_all
  also have "\<dots> = (y + 1 - 1901) div 100 + 1" by simp
  finally have q100: "(y + 1 + 1 - 1901) div 100 \<le> (y + 1 - 1901) div 100 + 1" .
  have q400: "(y + 1 - 1601) div 400 \<le> (y + 1 + 1 - 1601) div 400"
    by (intro zdiv_mono1) simp_all
  have "365 * (y + 1 - 1970) + (y + 1 - 1969) div 4 - (y + 1 - 1901) div 100
          + (y + 1 - 1601) div 400
        < 365 * (y + 1 + 1 - 1970) + (y + 1 + 1 - 1969) div 4 - (y + 1 + 1 - 1901) div 100
          + (y + 1 + 1 - 1601) div 400"
    using q4 q100 q400 by (simp add: algebra_simps)
  then have "DayFromYear (y + 1) < DayFromYear (y + 1 + 1)"
    unfolding DayFromYear_def .
  with reached
  show "((y + 1, d), (y, d)) \<in> measure (\<lambda>(y, d). nat (d + 1 - DayFromYear (y + 1)))"
    by simp
qed

function year_down :: "int \<Rightarrow> int \<Rightarrow> int" where
  "year_down y d = (if d < DayFromYear y then year_down (y - 1) d else y)"
  by pat_completeness auto
termination
proof (relation "measure (\<lambda>(y, d). nat (DayFromYear y - d))")
  show "wf (measure (\<lambda>(y, d). nat (DayFromYear y - d)))" by simp
next
  fix y d :: int
  assume below: "d < DayFromYear y"
  have q4: "(y - 1 - 1969) div 4 \<le> (y - 1969) div 4"
    by (intro zdiv_mono1) simp_all
  have "(y - 1901) div 100 = (y - 1 - 1901 + 1) div 100" by simp
  also have "\<dots> \<le> (y - 1 - 1901 + 100) div 100" by (intro zdiv_mono1) simp_all
  also have "\<dots> = (y - 1 - 1901) div 100 + 1" by simp
  finally have q100: "(y - 1901) div 100 \<le> (y - 1 - 1901) div 100 + 1" .
  have q400: "(y - 1 - 1601) div 400 \<le> (y - 1601) div 400"
    by (intro zdiv_mono1) simp_all
  have "365 * (y - 1 - 1970) + (y - 1 - 1969) div 4 - (y - 1 - 1901) div 100
          + (y - 1 - 1601) div 400
        < 365 * (y - 1970) + (y - 1969) div 4 - (y - 1901) div 100 + (y - 1601) div 400"
    using q4 q100 q400 by (simp add: algebra_simps)
  then have "DayFromYear (y - 1) < DayFromYear y"
    unfolding DayFromYear_def .
  with below show "((y - 1, d), (y, d)) \<in> measure (\<lambda>(y, d). nat (DayFromYear y - d))"
    by simp
qed

definition YearFromDay :: "int \<Rightarrow> int" where
  \<comment> \<open>the largest year that starts on or before day \<open>d\<close>: a search from an estimate, up
      to a year that ends after \<open>d\<close>, then down to the one that starts on or before it\<close>
  "YearFromDay d = year_down (year_up (1970 + d div 365) d) d"

definition YearFromTime :: "int \<Rightarrow> int" where
  "YearFromTime t = YearFromDay (Day t)"

definition DayWithinYear :: "int \<Rightarrow> int" where
  "DayWithinYear t = Day t - DayFromYear (YearFromTime t)"

definition monthStart :: "int \<Rightarrow> bool \<Rightarrow> int" where
  \<comment> \<open>the day within the year on which month \<open>m\<close> (0 to 11) starts\<close>
  "monthStart m leap =
     (if m = 0 then 0 else if m = 1 then 31
      else (if leap then 1 else 0) +
        (if m = 2 then 59 else if m = 3 then 90 else if m = 4 then 120
         else if m = 5 then 151 else if m = 6 then 181 else if m = 7 then 212
         else if m = 8 then 243 else if m = 9 then 273 else if m = 10 then 304
         else 334))"

definition monthOfDay :: "int \<Rightarrow> bool \<Rightarrow> int" where
  "monthOfDay d leap =
     (let l = (if leap then 1 else 0)
      in if d < 31 then 0 else if d < 59 + l then 1 else if d < 90 + l then 2
         else if d < 120 + l then 3 else if d < 151 + l then 4 else if d < 181 + l then 5
         else if d < 212 + l then 6 else if d < 243 + l then 7 else if d < 273 + l then 8
         else if d < 304 + l then 9 else if d < 334 + l then 10 else 11)"

definition MonthFromTime :: "int \<Rightarrow> int" where
  "MonthFromTime t = monthOfDay (DayWithinYear t) (isLeapYear (YearFromTime t))"

definition DateFromTime :: "int \<Rightarrow> int" where
  "DateFromTime t =
     DayWithinYear t - monthStart (MonthFromTime t) (isLeapYear (YearFromTime t)) + 1"

definition WeekDay :: "int \<Rightarrow> int" where
  "WeekDay t = (Day t + 4) mod 7"

definition MakeTime :: "int \<Rightarrow> int \<Rightarrow> int \<Rightarrow> int \<Rightarrow> int" where
  "MakeTime h m s ms = h * msPerHour + m * msPerMinute + s * msPerSecond + ms"

definition MakeDay :: "int \<Rightarrow> int \<Rightarrow> int \<Rightarrow> int" where
  "MakeDay y m dt =
     (let ym = y + m div 12; mn = m mod 12
      in DayFromYear ym + monthStart mn (isLeapYear ym) + dt - 1)"

definition MakeDate :: "int \<Rightarrow> int \<Rightarrow> int" where
  "MakeDate day time = day * msPerDay + time"

definition MakeFullYear :: "int \<Rightarrow> int" where
  \<comment> \<open>the Date constructor reads a year from 0 to 99 as 1900 + year\<close>
  "MakeFullYear y = (if 0 \<le> y \<and> y \<le> 99 then 1900 + y else y)"

definition Date_getFullYear :: "jsdate \<Rightarrow> jsnum" where
  "Date_getFullYear d = map_option YearFromTime d"

definition Date_getMonth :: "jsdate \<Rightarrow> jsnum" where
  "Date_getMonth d = map_option MonthFromTime d"

definition Date_getDate :: "jsdate \<Rightarrow> jsnum" where
  "Date_getDate d = map_option DateFromTime d"

definition Date_getDay :: "jsdate \<Rightarrow> jsnum" where
  "Date_getDay d = map_option WeekDay d"

definition Date_getHours :: "jsdate \<Rightarrow> jsnum" where
  "Date_getHours d = map_option (\<lambda>t. (t div msPerHour) mod 24) d"

definition Date_getMinutes :: "jsdate \<Rightarrow> jsnum" where
  "Date_getMinutes d = map_option (\<lambda>t. (t div msPerMinute) mod 60) d"

definition Date_getSeconds :: "jsdate \<Rightarrow> jsnum" where
  "Date_getSeconds d = map_option (\<lambda>t. (t div msPerSecond) mod 60) d"

definition Date_getMilliseconds :: "jsdate \<Rightarrow> jsnum" where
  "Date_getMilliseconds d = map_option (\<lambda>t. t mod msPerSecond) d"

definition Date_setDate :: "jsdate \<Rightarrow> jsnum \<Rightarrow> jsdate" where
  "Date_setDate d dt =
     (case (d, dt) of
        (Some t, Some n) \<Rightarrow>
          Some (MakeDate (MakeDay (YearFromTime t) (MonthFromTime t) n) (TimeWithinDay t))
      | _ \<Rightarrow> None)"

definition Date_setMonth :: "jsdate \<Rightarrow> jsnum \<Rightarrow> jsdate" where
  "Date_setMonth d m =
     (case (d, m) of
        (Some t, Some n) \<Rightarrow>
          Some (MakeDate (MakeDay (YearFromTime t) n (DateFromTime t)) (TimeWithinDay t))
      | _ \<Rightarrow> None)"

definition Date_setFullYear :: "jsdate \<Rightarrow> jsnum \<Rightarrow> jsdate" where
  \<comment> \<open>on an Invalid Date \<open>setFullYear\<close> starts from time value 0; the program never does that\<close>
  "Date_setFullYear d y =
     (case y of
        None \<Rightarrow> None
      | Some n \<Rightarrow>
          (let t = (case d of Some t \<Rightarrow> t | None \<Rightarrow> 0)
           in Some (MakeDate (MakeDay n (MonthFromTime t) (DateFromTime t)) (TimeWithinDay t))))"

definition Date_setHours :: "jsdate \<Rightarrow> jsnum \<Rightarrow> jsnum \<Rightarrow> jsnum \<Rightarrow> jsnum \<Rightarrow> jsdate" where
  "Date_setHours d h m s ms =
     (case (d, h, m, s, ms) of
        (Some t, Some h', Some m', Some s', Some ms') \<Rightarrow>
          Some (MakeDate (Day t) (MakeTime h' m' s' ms'))
      | _ \<Rightarrow> None)"

definition Date_new :: "jsnum \<Rightarrow> jsnum \<Rightarrow> jsnum \<Rightarrow> jsnum \<Rightarrow> jsnum \<Rightarrow> jsdate" where
  \<comment> \<open>\<open>new Date(year, month, day, hours, minutes)\<close>, in local time\<close>
  "Date_new y m dt h mi =
     (case (y, m, dt, h, mi) of
        (Some y', Some m', Some dt', Some h', Some mi') \<Rightarrow>
          Some (MakeDate (MakeDay (MakeFullYear y') m' dt') (MakeTime h' mi' 0 0))
      | _ \<Rightarrow> None)"

section \<open>Fatal usage errors and thrown errors\<close>

datatype fatal = Exit (stderr: string) (status: nat)
  \<comment> \<open>\<open>console.error(message); process.exit(status)\<close>\<close>

datatype error = Error (message: string)
  \<comment> \<open>\<open>throw new Error(message)\<close>\<close>

definition em_dash :: string where
  "em_dash = [CHR 0xE2, CHR 0x80, CHR 0x94]"

section \<open>parseReminder and parseTimeLimit\<close>

definition match_number_unit :: "string \<Rightarrow> string \<Rightarrow> (string \<times> string) option" where
  \<comment> \<open>\<open>^(\d+)\s*([units]?)$\<close> under the flag \<open>i\<close>: all the digits, all the white space,
      then nothing or one unit letter. A shorter run of digits or of white space leaves a
      digit or a blank where a unit letter or the end is required.\<close>
  "match_number_unit units s =
     (let ds = takeWhile isDigit s;
          r = dropWhile isSpace (dropWhile isDigit s)
      in if ds = [] then None
         else (case r of
                 [] \<Rightarrow> Some (ds, [])
               | [c] \<Rightarrow> if toLowerChar c \<in> set units then Some (ds, [c]) else None
               | _ \<Rightarrow> None))"

datatype reminder_method = email_method | popup_method

record reminder =
  method_of :: reminder_method
  minutes :: jsnum


definition parseTimeLimit :: "int \<Rightarrow> string \<Rightarrow> fatal + jsdate" where
  \<comment> \<open>\<open>now\<close> is the time value of \<open>new Date()\<close> at the call\<close>
  \<open>parseTimeLimit now spec =
     (case match_number_unit ''dwmy'' spec of
        None \<Rightarrow>
          Inl (Exit (''Invalid time limit: "'' @ spec @ ''" '' @ em_dash @
                     '' use #d, #w, #m, or #y (e.g. 3m, 90d, 1y)'') 1)
      | Some (g1, g2) \<Rightarrow>
          (let num = parseInt g1;
               unit = toLowerCase (if g2 = [] then ''m'' else g2);
               d = Some now
           in Inr (if unit = ''d'' then Date_setDate d (num_add (Date_getDate d) num)
                   else if unit = ''w'' then
                     Date_setDate d (num_add (Date_getDate d) (num_mul num (Some 7)))
                   else if unit = ''y'' then
                     Date_setFullYear d (num_add (Date_getFullYear d) num)
                   else Date_setMonth d (num_add (Date_getMonth d) num))))\<close>

section \<open>parseDateTime\<close>

text \<open>
  The patterns of \<open>parseDateTime\<close> are anchored at both ends and every repetition in
  them is followed by something its own characters cannot start, so each is matched
  here from left to right, taking the longest run at every repetition. A function for
  a piece of a pattern returns what the piece captured and the rest of the string.
\<close>

definition digits_upto :: "nat \<Rightarrow> string \<Rightarrow> (string \<times> string) option" where
  \<comment> \<open>\<open>(\d{1,n})\<close>\<close>
  "digits_upto n s =
     (let ds = takeWhile isDigit (take n s)
      in if ds = [] then None else Some (ds, drop (length ds) s))"

definition digits_exact :: "nat \<Rightarrow> string \<Rightarrow> (string \<times> string) option" where
  \<comment> \<open>\<open>(\d{n})\<close>\<close>
  "digits_exact n s =
     (if n \<le> length s \<and> takeWhile isDigit (take n s) = take n s
      then Some (take n s, drop n s) else None)"

definition literal :: "bool \<Rightarrow> string \<Rightarrow> string \<Rightarrow> (string \<times> string) option" where
  \<comment> \<open>a literal text in lower case, compared without regard to case when the pattern has
      the flag \<open>i\<close>; the capture is the text as the subject has it\<close>
  "literal i p s =
     (if length p \<le> length s \<and>
         (if i then toLowerCase (take (length p) s) else take (length p) s) = p
      then Some (take (length p) s, drop (length p) s) else None)"

fun alternatives :: "bool \<Rightarrow> string list \<Rightarrow> string \<Rightarrow> (string \<times> string) option" where
  \<comment> \<open>\<open>(p1|p2|...)\<close>: the first alternative that matches\<close>
  "alternatives i [] s = None"
| "alternatives i (p # ps) s =
     (case literal i p s of Some r \<Rightarrow> Some r | None \<Rightarrow> alternatives i ps s)"

definition spaces1 :: "string \<Rightarrow> string option" where
  \<comment> \<open>\<open>\s+\<close>\<close>
  "spaces1 s = (case s of [] \<Rightarrow> None | c # _ \<Rightarrow> if isSpace c then Some (dropWhile isSpace s) else None)"

definition opt_at :: "string \<Rightarrow> string" where
  \<comment> \<open>\<open>(?:at\s+)?\<close>, in patterns with the flag \<open>i\<close>\<close>
  "opt_at s =
     (case literal True ''at'' s of
        None \<Rightarrow> s
      | Some (_, r) \<Rightarrow> (case spaces1 r of None \<Rightarrow> s | Some r' \<Rightarrow> r'))"

definition opt_minutes :: "string \<Rightarrow> string option \<times> string" where
  \<comment> \<open>\<open>(?::(\d{2}))?\<close>\<close>
  "opt_minutes s =
     (case literal False '':'' s of
        None \<Rightarrow> (None, s)
      | Some (_, r) \<Rightarrow>
          (case digits_exact 2 r of
             None \<Rightarrow> (None, s)
           | Some (m, r') \<Rightarrow> (Some m, r')))"

definition opt_meridiem :: "bool \<Rightarrow> string \<Rightarrow> string option \<times> string" where
  \<comment> \<open>\<open>(am|pm)?\<close>\<close>
  "opt_meridiem i s =
     (case alternatives i [''am'', ''pm''] s of
        None \<Rightarrow> (None, s)
      | Some (a, r) \<Rightarrow> (Some a, r))"

definition time_of_day ::
  "bool \<Rightarrow> bool \<Rightarrow> string \<Rightarrow> (string \<times> string option \<times> string option) option" where
  \<comment> \<open>\<open>(\d{1,2})(?::(\d{2}))?\s*(am|pm)?$\<close> with or without the flag \<open>i\<close>, and with
      \<open>(am|pm)\<close> not optional when \<open>required\<close> is set\<close>
  "time_of_day i required s =
     (case digits_upto 2 s of
        None \<Rightarrow> None
      | Some (hour, r1) \<Rightarrow>
          (case opt_minutes r1 of
             (mins, r2) \<Rightarrow>
               (case opt_meridiem i (dropWhile isSpace r2) of
                  (ampm, r4) \<Rightarrow>
                    if r4 = [] \<and> (if required then ampm \<noteq> None else True)
                    then Some (hour, mins, ampm) else None)))"

definition relMatch :: "string \<Rightarrow> (string \<times> string \<times> string option \<times> string option) option" where
  \<comment> \<open>\<open>/^(today|tomorrow)\s+(?:at\s+)?(\d{1,2})(?::(\d{2}))?\s*(am|pm)?$/i\<close>\<close>
  "relMatch s =
     (case alternatives True [''today'', ''tomorrow''] s of
        None \<Rightarrow> None
      | Some (rel, r1) \<Rightarrow>
          (case spaces1 r1 of
             None \<Rightarrow> None
           | Some r2 \<Rightarrow>
               (case time_of_day True False (opt_at r2) of
                  None \<Rightarrow> None
                | Some (hour, mins, ampm) \<Rightarrow> Some (rel, hour, mins, ampm))))"

definition weekdays :: "string list" where
  "weekdays = [''sunday'', ''monday'', ''tuesday'', ''wednesday'', ''thursday'', ''friday'',
               ''saturday'']"

definition dayMatch ::
  "string \<Rightarrow> (string option \<times> string \<times> string \<times> string option \<times> string option) option" where
  \<comment> \<open>\<open>/^(next\s+)?(sunday|...|saturday)\s+(?:at\s+)?(\d{1,2})(?::(\d{2}))?\s*(am|pm)?$/i\<close>\<close>
  "dayMatch s =
     (let (next, r0) =
            (case literal True ''next'' s of
               None \<Rightarrow> (None, s)
             | Some (n, r) \<Rightarrow>
                 (case spaces1 r of
                    None \<Rightarrow> (None, s)
                  | Some r' \<Rightarrow> (Some (take (length s - length r') s), r')))
      in case alternatives True weekdays r0 of
           None \<Rightarrow> None
         | Some (day, r1) \<Rightarrow>
             (case spaces1 r1 of
                None \<Rightarrow> None
              | Some r2 \<Rightarrow>
                  (case time_of_day True False (opt_at r2) of
                     None \<Rightarrow> None
                   | Some (hour, mins, ampm) \<Rightarrow> Some (next, day, hour, mins, ampm))))"

definition months :: "string list" where
  "months = [''jan'', ''feb'', ''mar'', ''apr'', ''may'', ''jun'', ''jul'', ''aug'', ''sep'',
             ''oct'', ''nov'', ''dec'']"

definition month_time ::
  "string \<Rightarrow> (string \<times> string option \<times> string option) option option" where
  \<comment> \<open>\<open>(?:\s+(?:at\s+)?(\d{1,2})(?::(\d{2}))?\s*(am|pm)?)?$\<close>: a time, or the end at once\<close>
  "month_time s =
     (case spaces1 s of
        None \<Rightarrow> if s = [] then Some None else None
      | Some r \<Rightarrow>
          (case time_of_day True False (opt_at r) of
             None \<Rightarrow> None
           | Some t \<Rightarrow> Some (Some t)))"

definition monthMatch ::
  "string \<Rightarrow> (string \<times> string \<times> string option \<times>
             (string \<times> string option \<times> string option) option) option" where
  \<comment> \<open>\<open>/^(jan|...|dec)[a-z]*\s+(\d{1,2})(?:\s+(\d{4}))?(?:\s+(?:at\s+)?(\d{1,2})(?::(\d{2}))?\s*(am|pm)?)?$/i\<close>:
      the year is tried first, and the pattern is tried again without it when what
      follows the year does not match\<close>
  "monthMatch s =
     (case alternatives True months s of
        None \<Rightarrow> None
      | Some (month, r1) \<Rightarrow>
          (case spaces1 (dropWhile isLetter r1) of
             None \<Rightarrow> None
           | Some r2 \<Rightarrow>
               (case digits_upto 2 r2 of
                  None \<Rightarrow> None
                | Some (day, r3) \<Rightarrow>
                    (let with_year =
                           (case spaces1 r3 of
                              None \<Rightarrow> None
                            | Some r4 \<Rightarrow>
                                (case digits_exact 4 r4 of
                                   None \<Rightarrow> None
                                 | Some (year, r5) \<Rightarrow>
                                     (case month_time r5 of
                                        None \<Rightarrow> None
                                      | Some t \<Rightarrow> Some (month, day, Some year, t))))
                     in case with_year of
                          Some m \<Rightarrow> Some m
                        | None \<Rightarrow>
                            (case month_time r3 of
                               None \<Rightarrow> None
                             | Some t \<Rightarrow> Some (month, day, None, t))))))"

definition clock :: "string \<Rightarrow> (string \<times> string) option" where
  \<comment> \<open>\<open>(\d{1,2}):(\d{2})$\<close>\<close>
  "clock s =
     (case digits_upto 2 s of
        None \<Rightarrow> None
      | Some (hour, r1) \<Rightarrow>
          (case literal False '':'' r1 of
             None \<Rightarrow> None
           | Some (_, r2) \<Rightarrow>
               (case digits_exact 2 r2 of
                  None \<Rightarrow> None
                | Some (mins, r3) \<Rightarrow> if r3 = [] then Some (hour, mins) else None)))"

definition dateTimeMatch ::
  "string \<Rightarrow> (string \<times> string \<times> string \<times> string \<times> string) option" where
  \<comment> \<open>\<open>/^(\d{1,2})\/(\d{1,2})\/(\d{4})\s+(\d{1,2}):(\d{2})$/\<close>\<close>
  "dateTimeMatch s =
     (case digits_upto 2 s of
        None \<Rightarrow> None
      | Some (month, r1) \<Rightarrow>
          (case literal False ''/'' r1 of
             None \<Rightarrow> None
           | Some (_, r2) \<Rightarrow>
               (case digits_upto 2 r2 of
                  None \<Rightarrow> None
                | Some (day, r3) \<Rightarrow>
                    (case literal False ''/'' r3 of
                       None \<Rightarrow> None
                     | Some (_, r4) \<Rightarrow>
                         (case digits_exact 4 r4 of
                            None \<Rightarrow> None
                          | Some (year, r5) \<Rightarrow>
                              (case spaces1 r5 of
                                 None \<Rightarrow> None
                               | Some r6 \<Rightarrow>
                                   (case clock r6 of
                                      None \<Rightarrow> None
                                    | Some (hour, mins) \<Rightarrow>
                                        Some (month, day, year, hour, mins))))))))"

definition isoDateTimeMatch ::
  "string \<Rightarrow> (string \<times> string \<times> string \<times> string \<times> string) option" where
  \<comment> \<open>\<open>/^(\d{4})-(\d{1,2})-(\d{1,2})\s+(\d{1,2}):(\d{2})$/\<close>\<close>
  "isoDateTimeMatch s =
     (case digits_exact 4 s of
        None \<Rightarrow> None
      | Some (year, r1) \<Rightarrow>
          (case literal False ''-'' r1 of
             None \<Rightarrow> None
           | Some (_, r2) \<Rightarrow>
               (case digits_upto 2 r2 of
                  None \<Rightarrow> None
                | Some (month, r3) \<Rightarrow>
                    (case literal False ''-'' r3 of
                       None \<Rightarrow> None
                     | Some (_, r4) \<Rightarrow>
                         (case digits_upto 2 r4 of
                            None \<Rightarrow> None
                          | Some (day, r5) \<Rightarrow>
                              (case spaces1 r5 of
                                 None \<Rightarrow> None
                               | Some r6 \<Rightarrow>
                                   (case clock r6 of
                                      None \<Rightarrow> None
                                    | Some (hour, mins) \<Rightarrow>
                                        Some (year, month, day, hour, mins))))))))"

definition timeMatch :: "string \<Rightarrow> (string \<times> string) option" where
  \<comment> \<open>\<open>/^(\d{1,2}):(\d{2})$/\<close>\<close>
  "timeMatch s = clock s"

definition ampmMatch :: "string \<Rightarrow> (string \<times> string option \<times> string) option" where
  \<comment> \<open>\<open>/^(\d{1,2})(?::(\d{2}))?\s*(am|pm)$/\<close>\<close>
  "ampmMatch s =
     (case time_of_day False True s of
        Some (hour, mins, Some ampm) \<Rightarrow> Some (hour, mins, ampm)
      | _ \<Rightarrow> None)"

definition meridiem_hour :: "jsnum \<Rightarrow> string option \<Rightarrow> jsnum" where
  \<comment> \<open>\<open>if (m === 'pm' && h < 12) h += 12; if (m === 'am' && h === 12) h = 0;\<close>
      where \<open>m\<close> is \<open>ampm?.toLowerCase()\<close> in the first three rules and \<open>ampm\<close> in the
      last one\<close>
  "meridiem_hour h m =
     (case h of
        None \<Rightarrow> None
      | Some x \<Rightarrow>
          (let x1 = (if m = Some ''pm'' \<and> x < 12 then x + 12 else x);
               x2 = (if m = Some ''am'' \<and> x1 = 12 then 0 else x1)
           in Some x2))"

definition minute_or_zero :: "string option \<Rightarrow> jsnum" where
  \<comment> \<open>\<open>parseInt(mins || '0')\<close>\<close>
  "minute_or_zero mins = parseInt (case mins of None \<Rightarrow> ''0'' | Some m \<Rightarrow> if m = [] then ''0'' else m)"

fun findIndex :: "('a \<Rightarrow> bool) \<Rightarrow> 'a list \<Rightarrow> int" where
  \<comment> \<open>\<open>findIndex\<close> and \<open>indexOf\<close>: the first index that qualifies, or -1\<close>
  "findIndex P [] = - 1"
| "findIndex P (x # xs) =
     (if P x then 0 else (let i = findIndex P xs in if i < 0 then - 1 else i + 1))"

definition rule_relative :: "int \<Rightarrow> string \<Rightarrow> jsdate option" where
  "rule_relative now lower =
     (case relMatch lower of
        None \<Rightarrow> None
      | Some (rel, hour, mins, ampm) \<Rightarrow>
          (let d = Some now;
               d = (if rel = ''tomorrow'' then Date_setDate d (num_add (Date_getDate d) (Some 1))
                    else d);
               h = meridiem_hour (parseInt hour) (map_option toLowerCase ampm)
           in Some (Date_setHours d h (minute_or_zero mins) (Some 0) (Some 0))))"

definition rule_weekday :: "int \<Rightarrow> string \<Rightarrow> jsdate option" where
  "rule_weekday now lower =
     (case dayMatch lower of
        None \<Rightarrow> None
      | Some (next, day, hour, mins, ampm) \<Rightarrow>
          (let targetDay = findIndex (\<lambda>w. w = toLowerCase day) weekdays;
               d = Some now;
               daysUntil = num_add (Some targetDay) (map_option uminus (Date_getDay d));
               daysUntil = (if (case daysUntil of None \<Rightarrow> False | Some n \<Rightarrow> n \<le> 0) \<or> next \<noteq> None
                            then num_add daysUntil (Some 7) else daysUntil);
               d = Date_setDate d (num_add (Date_getDate d) daysUntil);
               h = meridiem_hour (parseInt hour) (map_option toLowerCase ampm)
           in Some (Date_setHours d h (minute_or_zero mins) (Some 0) (Some 0))))"

definition rule_month :: "int \<Rightarrow> string \<Rightarrow> jsdate option" where
  \<comment> \<open>the year is \<open>parseInt(year || now.getFullYear().toString())\<close>, and \<open>parseInt\<close> of
      the decimal form of an integer is that integer\<close>
  "rule_month now lower =
     (case monthMatch lower of
        None \<Rightarrow> None
      | Some (month, day, year, time) \<Rightarrow>
          (let monthIndex = findIndex (\<lambda>m. startsWith (toLowerCase month) m) months;
               y = (case year of Some ys \<Rightarrow> parseInt ys | None \<Rightarrow> Date_getFullYear (Some now));
               d = Date_new y (Some monthIndex) (parseInt day) (Some 0) (Some 0);
               d = (case time of
                      Some (hour, mins, ampm) \<Rightarrow>
                        Date_setHours d
                          (meridiem_hour (parseInt hour) (map_option toLowerCase ampm))
                          (minute_or_zero mins) (Some 0) (Some 0)
                    | None \<Rightarrow> Date_setHours d (Some 0) (Some 0) (Some 0) (Some 0))
           in if d \<noteq> None then Some d else None))"

definition rule_slash :: "string \<Rightarrow> jsdate option" where
  "rule_slash input =
     (case dateTimeMatch input of
        None \<Rightarrow> None
      | Some (month, day, year, hour, mins) \<Rightarrow>
          (let d = Date_new (parseInt year) (num_add (parseInt month) (Some (- 1))) (parseInt day)
                     (parseInt hour) (parseInt mins)
           in if d \<noteq> None then Some d else None))"

definition rule_iso :: "string \<Rightarrow> jsdate option" where
  "rule_iso input =
     (case isoDateTimeMatch input of
        None \<Rightarrow> None
      | Some (year, month, day, hour, mins) \<Rightarrow>
          (let d = Date_new (parseInt year) (num_add (parseInt month) (Some (- 1))) (parseInt day)
                     (parseInt hour) (parseInt mins)
           in if d \<noteq> None then Some d else None))"

definition rule_time :: "int \<Rightarrow> string \<Rightarrow> jsdate option" where
  "rule_time now input =
     (case timeMatch input of
        None \<Rightarrow> None
      | Some (hour, mins) \<Rightarrow>
          Some (Date_setHours (Some now) (parseInt hour) (parseInt mins) (Some 0) (Some 0)))"

definition rule_ampm :: "int \<Rightarrow> string \<Rightarrow> jsdate option" where
  "rule_ampm now lower =
     (case ampmMatch lower of
        None \<Rightarrow> None
      | Some (hour, mins, ampm) \<Rightarrow>
          (let h = meridiem_hour (parseInt hour) (Some ampm)
           in Some (Date_setHours (Some now) h (minute_or_zero mins) (Some 0) (Some 0))))"

definition parseDateTime :: "(string \<Rightarrow> jsdate) \<Rightarrow> int \<Rightarrow> string \<Rightarrow> error + jsdate" where
  \<comment> \<open>\<open>nativeParse\<close> is \<open>new Date(input)\<close>, the platform's own free-form parser;
      \<open>now\<close> is the time value of \<open>new Date()\<close> at the call\<close>
  "parseDateTime nativeParse now input =
     (let lower = trim (toLowerCase input)
      in if lower = ''today'' then Inr (Some now)
         else if lower = ''tomorrow''
         then Inr (Date_setDate (Some now) (num_add (Date_getDate (Some now)) (Some 1)))
         else case rule_relative now lower of Some d \<Rightarrow> Inr d | None \<Rightarrow>
              (case rule_weekday now lower of Some d \<Rightarrow> Inr d | None \<Rightarrow>
              (case rule_month now lower of Some d \<Rightarrow> Inr d | None \<Rightarrow>
              (case rule_slash input of Some d \<Rightarrow> Inr d | None \<Rightarrow>
              (case rule_iso input of Some d \<Rightarrow> Inr d | None \<Rightarrow>
              (case rule_time now input of Some d \<Rightarrow> Inr d | None \<Rightarrow>
              (case rule_ampm now lower of Some d \<Rightarrow> Inr d | None \<Rightarrow>
              (let parsed = nativeParse input
               in if parsed \<noteq> None then Inr parsed
                  else Inl (Error (''Cannot parse date/time: '' @ input))))))))))"

section \<open>importIcsFile\<close>

text \<open>
  The interchange parser is a library: a record of the file is given by what its
  accessors return. An accessor that can throw returns a sum, \<open>Inl\<close> the thrown error.
\<close>

record ical_time =
  isDate :: bool
  toISOString :: "error + string"  \<comment> \<open>\<open>toJSDate().toISOString()\<close>\<close>
  tzid :: "string option"  \<comment> \<open>\<open>zone?.tzid\<close>\<close>

datatype ical_value = StringValue string | OtherValue string | NoValue
  \<comment> \<open>a string; a value that is not a string, given by its \<open>toString()\<close>; null or undefined\<close>

datatype cn_param = NoParam | Single string | Multi "string list"

record attendee_prop =
  getFirstValue :: ical_value
  cn :: cn_param  \<comment> \<open>\<open>getParameter('cn')\<close>\<close>

record vevent =
  event_summary :: "string option"  \<comment> \<open>\<open>event.summary\<close>\<close>
  event_description :: "string option"
  event_location :: "string option"
  startDate :: "error + ical_time option"
  endDate :: "error + ical_time option"
  attendee_props :: "attendee_prop list"  \<comment> \<open>\<open>getAllProperties('attendee')\<close>\<close>
  rrule :: "string option"  \<comment> \<open>\<open>getFirstPropertyValue('rrule')\<close>, by its \<open>toString()\<close>\<close>
  summary_prop :: "string option"  \<comment> \<open>\<open>getFirstPropertyValue('summary')\<close>\<close>

record event_time =
  date :: "string option"
  dateTime :: "string option"
  timeZone :: "string option"

record google_attendee =
  email :: string
  displayName :: "string option"

record google_event =
  summary :: string
  description :: "string option"
  location :: "string option"
  ev_start :: event_time
  ev_end :: event_time
  attendees :: "google_attendee list option"
  recurrence :: "string list option"

record response =
  ok :: bool
  status :: string  \<comment> \<open>the status code, in decimal\<close>
  body :: string  \<comment> \<open>\<open>await res.text()\<close>\<close>


definition truthy_string :: "string option \<Rightarrow> string option" where
  \<comment> \<open>\<open>x || undefined\<close>: an empty string is falsy\<close>
  "truthy_string x = (case x of None \<Rightarrow> None | Some s \<Rightarrow> if s = [] then None else Some s)"

definition or_default :: "string option \<Rightarrow> string \<Rightarrow> string" where
  \<comment> \<open>\<open>x || d\<close>\<close>
  "or_default x d = (case truthy_string x of None \<Rightarrow> d | Some s \<Rightarrow> s)"

definition map_time :: "string \<Rightarrow> ical_time option \<Rightarrow> error + event_time" where
  \<comment> \<open>the two branches that fill \<open>googleEvent.start\<close> and \<open>googleEvent.end\<close>;
      \<open>localZone\<close> is \<open>Intl.DateTimeFormat().resolvedOptions().timeZone\<close>\<close>
  "map_time localZone t =
     (case t of
        None \<Rightarrow> Inr \<lparr>date = None, dateTime = None, timeZone = None\<rparr>
      | Some x \<Rightarrow>
          (case toISOString x of
             Inl e \<Rightarrow> Inl e
           | Inr isoText \<Rightarrow>
               if isDate x
               then Inr \<lparr>date = Some (case split_on (CHR ''T'') isoText of [] \<Rightarrow> [] | p # _ \<Rightarrow> p),
                         dateTime = None, timeZone = None\<rparr>
               else Inr \<lparr>date = None, dateTime = Some isoText,
                         timeZone = Some (or_default (tzid x) localZone)\<rparr>))"

definition map_attendee :: "attendee_prop \<Rightarrow> google_attendee" where
  "map_attendee att =
     (let emailValue = getFirstValue att;
          email = (case emailValue of
                     StringValue s \<Rightarrow> replace_first ''mailto:'' [] s
                   | OtherValue s \<Rightarrow> or_default (Some s) []
                   | NoValue \<Rightarrow> []);
          displayName = (case cn att of
                           Multi l \<Rightarrow> (case l of [] \<Rightarrow> None | x # _ \<Rightarrow> Some x)
                         | Single s \<Rightarrow> Some s
                         | NoParam \<Rightarrow> None)
      in \<lparr>email = email, displayName = truthy_string displayName\<rparr>)"

definition mapRecord :: "string \<Rightarrow> vevent \<Rightarrow> error + google_event" where
  \<comment> \<open>the body of the inner \<open>try\<close> up to the call of \<open>createEvent\<close>\<close>
  "mapRecord localZone v =
     (case startDate v of
        Inl e \<Rightarrow> Inl e
      | Inr sd \<Rightarrow>
          (case map_time localZone sd of
             Inl e \<Rightarrow> Inl e
           | Inr st \<Rightarrow>
               (case endDate v of
                  Inl e \<Rightarrow> Inl e
                | Inr ed \<Rightarrow>
                    (case map_time localZone ed of
                       Inl e \<Rightarrow> Inl e
                     | Inr en \<Rightarrow>
                         Inr \<lparr>summary = or_default (event_summary v) ''Untitled Event'',
                              description = truthy_string (event_description v),
                              location = truthy_string (event_location v),
                              ev_start = st,
                              ev_end = en,
                              attendees = (if attendee_props v \<noteq> []
                                           then Some (map map_attendee (attendee_props v))
                                           else None),
                              recurrence = (case rrule v of
                                              None \<Rightarrow> None
                                            | Some r \<Rightarrow> Some [''RRULE:'' @ r])\<rparr>))))"





section \<open>The grammars, in the words of the specification\<close>

definition number_unit_form :: "string \<Rightarrow> string \<Rightarrow> bool" where
  \<comment> \<open>\<open>^(\d+)\s*([letters]?)$\<close>: digits, then white space, then nothing or one of the letters\<close>
  "number_unit_form letters s =
     (\<exists>ds ws u. s = ds @ ws @ u \<and> ds \<noteq> [] \<and> (\<forall>c\<in>set ds. isDigit c) \<and>
        (\<forall>c\<in>set ws. isSpace c) \<and> (u = [] \<or> (\<exists>c\<in>set letters. u = [c])))"

definition all_day :: "event_time \<Rightarrow> bool" where
  \<comment> \<open>a calendar date only, no time and no time zone\<close>
  "all_day t = (date t \<noteq> None \<and> dateTime t = None \<and> timeZone t = None)"

definition timed :: "event_time \<Rightarrow> bool" where
  \<comment> \<open>an instant and a time zone\<close>
  "timed t = (date t = None \<and> dateTime t \<noteq> None \<and> timeZone t \<noteq> None)"

definition same_form :: "google_event \<Rightarrow> bool" where
  \<comment> \<open>start and end are both all-day or both timed\<close>
  "same_form g =
     (all_day (ev_start g) \<and> all_day (ev_end g) \<or> timed (ev_start g) \<and> timed (ev_end g))"



definition is_number :: "string \<Rightarrow> bool" where
  \<comment> \<open>one digit or more, and digits only\<close>
  "is_number s = (s \<noteq> [] \<and> (\<forall>c\<in>set s. isDigit c))"

definition hour12 :: "int \<Rightarrow> string option \<Rightarrow> int" where
  \<comment> \<open>the 12-hour conversion rule: if the meridiem is pm and H < 12, add 12; if it is am
      and H is 12, set to 0; otherwise H is unchanged\<close>
  "hour12 H meridiem =
     (if meridiem = Some ''pm'' \<and> H < 12 then H + 12
      else if meridiem = Some ''am'' \<and> H = 12 then 0
      else H)"

definition minutes_value :: "string option \<Rightarrow> int" where
  \<comment> \<open>the minutes that were written, 0 when they were omitted\<close>
  "minutes_value m = (case m of None \<Rightarrow> 0 | Some ds \<Rightarrow> radixValue 10 ds)"

definition no_rule_matches :: "string \<Rightarrow> bool" where
  \<comment> \<open>none of the explicit grammar rules of \<open>parseDateTime\<close> matches the input\<close>
  "no_rule_matches input =
     (let lower = trim (toLowerCase input)
      in lower \<noteq> ''today'' \<and> lower \<noteq> ''tomorrow'' \<and> relMatch lower = None \<and>
         dayMatch lower = None \<and> monthMatch lower = None \<and> dateTimeMatch input = None \<and>
         isoDateTimeMatch input = None \<and> timeMatch input = None \<and> ampmMatch lower = None)"


section \<open>Lemmas on characters and numbers\<close>

lemma toLowerChar_cases:
  "toLowerChar c = c \<or> (c, toLowerChar c) \<in> set (zip upperChars lowerChars)"
proof (cases "map_of (zip upperChars lowerChars) c")
  case None
  then show ?thesis by (simp add: toLowerChar_def)
next
  case (Some l)
  then have "(c, l) \<in> set (zip upperChars lowerChars)" by (rule map_of_SomeD)
  with Some show ?thesis by (simp add: toLowerChar_def)
qed

lemma lower_d: "toLowerChar c = CHR ''d'' \<longleftrightarrow> c = CHR ''d'' \<or> c = CHR ''D''"
proof
  assume "toLowerChar c = CHR ''d''"
  with toLowerChar_cases [of c]
  have "c = CHR ''d'' \<or> (c, CHR ''d'') \<in> set (zip upperChars lowerChars)" by metis
  then show "c = CHR ''d'' \<or> c = CHR ''D''" by (simp add: upperChars_def lowerChars_def)
next
  assume "c = CHR ''d'' \<or> c = CHR ''D''"
  then show "toLowerChar c = CHR ''d''"
    by (elim disjE) (simp_all add: toLowerChar_def upperChars_def lowerChars_def)
qed

lemma lower_w: "toLowerChar c = CHR ''w'' \<longleftrightarrow> c = CHR ''w'' \<or> c = CHR ''W''"
proof
  assume "toLowerChar c = CHR ''w''"
  with toLowerChar_cases [of c]
  have "c = CHR ''w'' \<or> (c, CHR ''w'') \<in> set (zip upperChars lowerChars)" by metis
  then show "c = CHR ''w'' \<or> c = CHR ''W''" by (simp add: upperChars_def lowerChars_def)
next
  assume "c = CHR ''w'' \<or> c = CHR ''W''"
  then show "toLowerChar c = CHR ''w''"
    by (elim disjE) (simp_all add: toLowerChar_def upperChars_def lowerChars_def)
qed

lemma lower_m: "toLowerChar c = CHR ''m'' \<longleftrightarrow> c = CHR ''m'' \<or> c = CHR ''M''"
proof
  assume "toLowerChar c = CHR ''m''"
  with toLowerChar_cases [of c]
  have "c = CHR ''m'' \<or> (c, CHR ''m'') \<in> set (zip upperChars lowerChars)" by metis
  then show "c = CHR ''m'' \<or> c = CHR ''M''" by (simp add: upperChars_def lowerChars_def)
next
  assume "c = CHR ''m'' \<or> c = CHR ''M''"
  then show "toLowerChar c = CHR ''m''"
    by (elim disjE) (simp_all add: toLowerChar_def upperChars_def lowerChars_def)
qed

lemma lower_y: "toLowerChar c = CHR ''y'' \<longleftrightarrow> c = CHR ''y'' \<or> c = CHR ''Y''"
proof
  assume "toLowerChar c = CHR ''y''"
  with toLowerChar_cases [of c]
  have "c = CHR ''y'' \<or> (c, CHR ''y'') \<in> set (zip upperChars lowerChars)" by metis
  then show "c = CHR ''y'' \<or> c = CHR ''Y''" by (simp add: upperChars_def lowerChars_def)
next
  assume "c = CHR ''y'' \<or> c = CHR ''Y''"
  then show "toLowerChar c = CHR ''y''"
    by (elim disjE) (simp_all add: toLowerChar_def upperChars_def lowerChars_def)
qed


lemma unit_letter_dwmy: "toLowerChar c \<in> set ''dwmy'' \<longleftrightarrow> c \<in> set ''dwmyDWMY''"
  by (simp add: lower_d lower_w lower_m lower_y) blast


lemma space_not_digit: "isSpace c \<Longrightarrow> \<not> isDigit c"
  by (auto simp: isSpace_def isDigit_def)

lemma digit_not_space: "isDigit c \<Longrightarrow> \<not> isSpace c"
  by (auto simp: isSpace_def isDigit_def)

lemma parseInt_digits:
  assumes "ds \<noteq> []" "\<forall>c\<in>set ds. isDigit c"
  shows "parseInt ds = Some (radixValue 10 ds)"
proof -
  from assms obtain c cs where ds: "ds = c # cs" by (cases ds) auto
  with assms(2) have c: "isDigit c" by simp
  then have nsp: "\<not> isSpace c" by (rule digit_not_space)
  have s1: "dropWhile isSpace ds = ds" using nsp ds by simp
  have sg: "\<not> startsWith ds ''-''" "\<not> startsWith ds ''+''"
    using c ds by (auto simp: startsWith_def isDigit_def)
  have "cs = [] \<or> isDigit (hd cs)" using assms(2) ds by (cases cs) auto
  then have hx: "\<not> startsWith ds ''0x''" "\<not> startsWith ds ''0X''"
    using ds by (cases cs; auto simp: startsWith_def isDigit_def)+
  have tw: "takeWhile isDigit ds = ds" using assms(2) by (simp add: takeWhile_eq_all_conv)
  show ?thesis
    unfolding parseInt_def Let_def s1 using sg hx assms(1) by (simp add: tw)
qed

lemma dropWhile_none: "\<forall>c\<in>set xs. \<not> P c \<Longrightarrow> dropWhile P xs = xs"
  by (cases xs) auto

lemma takeWhile_none: "\<forall>c\<in>set xs. \<not> P c \<Longrightarrow> takeWhile P xs = []"
  by (cases xs) auto

lemma match_number_unit_complete:
  assumes "ds \<noteq> []" "\<forall>c\<in>set ds. isDigit c" "\<forall>c\<in>set ws. isSpace c"
    and "u = [] \<or> (\<exists>c. u = [c] \<and> toLowerChar c \<in> set units)"
    and "\<forall>c\<in>set u. \<not> isDigit c \<and> \<not> isSpace c"
  shows "match_number_unit units (ds @ ws @ u) = Some (ds, u)"
proof -
  have wsn: "\<forall>c\<in>set ws. \<not> isDigit c" using assms(3) space_not_digit by blast
  have all: "\<forall>c\<in>set (ws @ u). \<not> isDigit c" using assms(5) wsn by auto
  have nd: "dropWhile isDigit (ws @ u) = ws @ u"
    using all by (rule dropWhile_none)
  have nt: "takeWhile isDigit (ws @ u) = []"
    using all by (rule takeWhile_none)
  have t: "takeWhile isDigit (ds @ ws @ u) = ds"
    using assms(2) nt by (simp add: takeWhile_append2)
  have d: "dropWhile isDigit (ds @ ws @ u) = ws @ u"
    using assms(2) nd by (simp add: dropWhile_append2)
  have "dropWhile isSpace u = u"
    using assms(5) by (intro dropWhile_none) simp
  then have sp: "dropWhile isSpace (ws @ u) = u"
    using assms(3) by (simp add: dropWhile_append2)
  from assms(4) show ?thesis
  proof
    assume "u = []"
    then show ?thesis
      unfolding match_number_unit_def Let_def t d sp using assms(1) by simp
  next
    assume "\<exists>c. u = [c] \<and> toLowerChar c \<in> set units"
    then obtain c where "u = [c]" "toLowerChar c \<in> set units" by blast
    then show ?thesis
      unfolding match_number_unit_def Let_def t d sp using assms(1) by simp
  qed
qed

lemma match_number_unit_sound:
  assumes "match_number_unit units s = Some (g1, g2)"
  shows "\<exists>ws. s = g1 @ ws @ g2 \<and> g1 \<noteq> [] \<and> (\<forall>c\<in>set g1. isDigit c) \<and>
              (\<forall>c\<in>set ws. isSpace c) \<and>
              (g2 = [] \<or> (\<exists>c. g2 = [c] \<and> toLowerChar c \<in> set units))"
proof -
  define r where "r = dropWhile isSpace (dropWhile isDigit s)"
  have g1: "g1 = takeWhile isDigit s" and g1n: "g1 \<noteq> []"
    and g2: "g2 = r" and g2f: "g2 = [] \<or> (\<exists>c. g2 = [c] \<and> toLowerChar c \<in> set units)"
    using assms unfolding match_number_unit_def Let_def r_def [symmetric]
    by (auto split: if_splits list.splits)
  have "s = takeWhile isDigit s @ takeWhile isSpace (dropWhile isDigit s) @ r"
    unfolding r_def by simp
  moreover have "\<forall>c\<in>set (takeWhile isDigit s). isDigit c" by (auto dest: set_takeWhileD)
  moreover have "\<forall>c\<in>set (takeWhile isSpace (dropWhile isDigit s)). isSpace c"
    by (auto dest: set_takeWhileD)
  ultimately show ?thesis using g1 g1n g2 g2f by blast
qed

section \<open>The calendar of the Date\<close>




lemma monthOfDay_range: "0 \<le> monthOfDay d l \<and> monthOfDay d l \<le> 11"
  by (simp add: monthOfDay_def Let_def)

lemma MakeDay_of_fields:
  "MakeDay (YearFromTime t) (MonthFromTime t) (DateFromTime t + n) = Day t + n"
proof -
  have r: "0 \<le> MonthFromTime t \<and> MonthFromTime t \<le> 11"
    unfolding MonthFromTime_def by (rule monthOfDay_range)
  then have "MonthFromTime t div 12 = 0" "MonthFromTime t mod 12 = MonthFromTime t" by simp_all
  then show ?thesis
    by (simp add: MakeDay_def Let_def DateFromTime_def DayWithinYear_def)
qed

lemma setDate_getDate:
  "Date_setDate (Some t) (num_add (Date_getDate (Some t)) (Some n)) = Some (t + n * msPerDay)"
proof -
  have "MakeDate (Day t + n) (TimeWithinDay t) = t + n * msPerDay"
    by (simp add: MakeDate_def Day_def TimeWithinDay_def algebra_simps)
  then show ?thesis
    by (simp add: Date_setDate_def Date_getDate_def num_add_def MakeDay_of_fields)
qed















section \<open>parseTimeLimit\<close>

lemma time_limit_match_iff:
  "match_number_unit ''dwmy'' spec \<noteq> None \<longleftrightarrow> number_unit_form ''dwmyDWMY'' spec"
proof
  assume "match_number_unit ''dwmy'' spec \<noteq> None"
  then obtain g1 g2 where "match_number_unit ''dwmy'' spec = Some (g1, g2)" by auto
  from match_number_unit_sound [OF this] obtain ws where
    w: "spec = g1 @ ws @ g2" "g1 \<noteq> []" "\<forall>c\<in>set g1. isDigit c" "\<forall>c\<in>set ws. isSpace c"
       "g2 = [] \<or> (\<exists>c. g2 = [c] \<and> toLowerChar c \<in> set ''dwmy'')"
    by blast
  from w(5) have "g2 = [] \<or> (\<exists>c\<in>set ''dwmyDWMY''. g2 = [c])"
    unfolding unit_letter_dwmy by blast
  with w(1-4) show "number_unit_form ''dwmyDWMY'' spec"
    unfolding number_unit_form_def by blast
next
  assume "number_unit_form ''dwmyDWMY'' spec"
  then obtain ds ws u where
    f: "spec = ds @ ws @ u" "ds \<noteq> []" "\<forall>c\<in>set ds. isDigit c" "\<forall>c\<in>set ws. isSpace c"
       "u = [] \<or> (\<exists>c\<in>set ''dwmyDWMY''. u = [c])"
    unfolding number_unit_form_def by blast
  from f(5) have u1: "u = [] \<or> (\<exists>c. u = [c] \<and> toLowerChar c \<in> set ''dwmy'')"
    unfolding unit_letter_dwmy by blast
  from f(5) have u2: "\<forall>c\<in>set u. \<not> isDigit c \<and> \<not> isSpace c"
    by (auto simp: isDigit_def isSpace_def)
  from match_number_unit_complete [OF f(2,3,4) u1 u2] f(1)
  show "match_number_unit ''dwmy'' spec \<noteq> None" by simp
qed

lemma parseTimeLimit_matched:
  assumes "match_number_unit ''dwmy'' spec = Some (g1, g2)"
  shows "\<exists>t. parseTimeLimit now spec = Inr (Some t)"
proof -
  from match_number_unit_sound [OF assms] have "g1 \<noteq> []" "\<forall>c\<in>set g1. isDigit c" by blast+
  then have p: "parseInt g1 = Some (radixValue 10 g1)" by (rule parseInt_digits)
  show ?thesis
    by (simp add: parseTimeLimit_def assms Let_def p Date_setDate_def Date_setMonth_def Date_setFullYear_def
        Date_getDate_def Date_getMonth_def Date_getFullYear_def num_add_def num_mul_def)
qed

text \<open>
  C4. \<open>parseTimeLimit\<close> ends the command with the usage message
  \<open>Invalid time limit: "<input>" - use #d, #w, #m, or #y (e.g. 3m, 90d, 1y)\<close> (the dash is
  an em dash) and exit status 1 exactly when the input does not have the form
  \<open>^(\d+)\s*([dwmy]?)$\<close>, upper or lower case; an input of that form makes it return a
  Date and no error.
\<close>

theorem parseTimeLimit_fatal_iff:
  \<open>(parseTimeLimit now spec =
      Inl (Exit (''Invalid time limit: "'' @ spec @ ''" '' @ em_dash @
                 '' use #d, #w, #m, or #y (e.g. 3m, 90d, 1y)'') 1))
     = (\<not> number_unit_form ''dwmyDWMY'' spec) \<and>
   (\<exists>d. parseTimeLimit now spec = Inr d) = number_unit_form ''dwmyDWMY'' spec\<close>
proof (cases "match_number_unit ''dwmy'' spec")
  case None
  then have "\<not> number_unit_form ''dwmyDWMY'' spec"
    using time_limit_match_iff [of spec] by simp
  then show ?thesis using None by (simp add: parseTimeLimit_def)
next
  case (Some g)
  then obtain g1 g2 where m: "match_number_unit ''dwmy'' spec = Some (g1, g2)"
    by (cases g) auto
  then have "number_unit_form ''dwmyDWMY'' spec"
    using time_limit_match_iff [of spec] by simp
  moreover from parseTimeLimit_matched [OF m] obtain t where
    "parseTimeLimit now spec = Inr (Some t)" by blast
  ultimately show ?thesis by simp
qed

text \<open>Witness: \<open>xyz\<close> is refused and \<open>90 D\<close> is accepted.\<close>

theorem parseTimeLimit_fatal_iff_witness:
  \<open>parseTimeLimit 1793615400123 ''xyz'' =
      Inl (Exit (''Invalid time limit: "xyz" '' @ em_dash @
                 '' use #d, #w, #m, or #y (e.g. 3m, 90d, 1y)'') 1) \<and>
   \<not> number_unit_form ''dwmyDWMY'' ''xyz'' \<and>
   parseTimeLimit 1793615400123 ''90 D'' = Inr (Some 1801391400123) \<and>
   number_unit_form ''dwmyDWMY'' ''90 D''\<close>
proof -
  have a: \<open>parseTimeLimit 1793615400123 ''xyz'' =
      Inl (Exit (''Invalid time limit: "'' @ ''xyz'' @ ''" '' @ em_dash @
                 '' use #d, #w, #m, or #y (e.g. 3m, 90d, 1y)'') 1)\<close>
    by code_simp
  have b: "parseTimeLimit 1793615400123 ''90 D'' = Inr (Some 1801391400123)"
    by code_simp
  from a parseTimeLimit_fatal_iff [of 1793615400123 "''xyz''"]
  have "\<not> number_unit_form ''dwmyDWMY'' ''xyz''" by blast
  moreover from b parseTimeLimit_fatal_iff [of 1793615400123 "''90 D''"]
  have "number_unit_form ''dwmyDWMY'' ''90 D''" by blast
  ultimately show ?thesis using a b by simp
qed





section \<open>parseReminder\<close>







section \<open>parseDuration: the bare integer\<close>

text \<open>
  C2. \<open>parseDuration\<close> returns 60 h + m when \<open><digits>h\<close> or \<open><digits>m\<close> is present, and
  otherwise the whole string read as an integer of minutes, with the default 60 only when
  that integer cannot be read. The examples of the specification hold, and a pattern
  that is present counts with its value, zero included: \<open>0m\<close> is 0 minutes. The bare
  integer \<open>0\<close> is read as the integer 0 and yet the function returns 60, because the
  default is taken by \<open>parseInt(duration) || 60\<close> and 0 is falsy.
\<close>

theorem parseDuration_bare_zero:
  "parseDuration ''1h30m'' = Some 90 \<and> parseDuration ''45m'' = Some 45 \<and>
   parseDuration ''bogus'' = Some 60 \<and>
   parseInt ''0'' = Some 0 \<and> parseDuration ''0'' = Some 60 \<and> parseDuration ''0m'' = Some 0"
  by code_simp

section \<open>The import mapper\<close>

lemma map_time_form:
  assumes "map_time z (Some x) = Inr t"
  shows "all_day t = isDate x" "timed t = (\<not> isDate x)"
  using assms
  by (auto simp: map_time_def all_day_def timed_def split: sum.splits if_splits)

lemma mapRecord_times:
  assumes "mapRecord z v = Inr g"
  shows "\<exists>sd ed. startDate v = Inr sd \<and> endDate v = Inr ed \<and>
           map_time z sd = Inr (ev_start g) \<and> map_time z ed = Inr (ev_end g)"
  using assms by (auto simp: mapRecord_def split: sum.splits)

text \<open>
  C1 (as amended). Whenever the mapper produces an event, its start is all-day exactly
  when the start value of the record is marked date-only and timed exactly when it is
  not, and its end likewise by the end value alone; so start and end have the same form
  whenever both values are present and marked alike.
\<close>

theorem mapRecord_forms:
  assumes "mapRecord z v = Inr g"
  shows "(\<forall>s. startDate v = Inr (Some s) \<longrightarrow>
            all_day (ev_start g) = isDate s \<and> timed (ev_start g) = (\<not> isDate s)) \<and>
         (\<forall>e. endDate v = Inr (Some e) \<longrightarrow>
            all_day (ev_end g) = isDate e \<and> timed (ev_end g) = (\<not> isDate e)) \<and>
         (\<forall>s e. startDate v = Inr (Some s) \<and> endDate v = Inr (Some e) \<and> isDate s = isDate e
            \<longrightarrow> same_form g)"
proof -
  from mapRecord_times [OF assms] obtain sd ed where
    t: "startDate v = Inr sd" "endDate v = Inr ed"
       "map_time z sd = Inr (ev_start g)" "map_time z ed = Inr (ev_end g)"
    by blast
  have a: "all_day (ev_start g) = isDate s \<and> timed (ev_start g) = (\<not> isDate s)"
    if "startDate v = Inr (Some s)" for s
    using that t(1,3) map_time_form [of z s "ev_start g"] by simp
  have b: "all_day (ev_end g) = isDate e \<and> timed (ev_end g) = (\<not> isDate e)"
    if "endDate v = Inr (Some e)" for e
    using that t(2,4) map_time_form [of z e "ev_end g"] by simp
  have c: "same_form g"
    if "startDate v = Inr (Some s) \<and> endDate v = Inr (Some e) \<and> isDate s = isDate e" for s e
    using that a [of s] b [of e] by (auto simp: same_form_def)
  from a b c show ?thesis by blast
qed

text \<open>
  Witness: a record with a date-only start and a date-only end gives an event whose start
  and end are both all-day.
\<close>

theorem mapRecord_forms_witness:
  "mapRecord ''Europe/Paris''
     \<lparr>event_summary = Some ''Trip'', event_description = None, event_location = None,
      startDate = Inr (Some \<lparr>isDate = True, toISOString = Inr ''2026-01-01T00:00:00.000Z'',
                             tzid = None\<rparr>),
      endDate = Inr (Some \<lparr>isDate = True, toISOString = Inr ''2026-01-02T00:00:00.000Z'',
                           tzid = None\<rparr>),
      attendee_props = [], rrule = None, summary_prop = Some ''Trip''\<rparr>
   = Inr \<lparr>summary = ''Trip'', description = None, location = None,
          ev_start = \<lparr>date = Some ''2026-01-01'', dateTime = None, timeZone = None\<rparr>,
          ev_end = \<lparr>date = Some ''2026-01-02'', dateTime = None, timeZone = None\<rparr>,
          attendees = None, recurrence = None\<rparr> \<and>
   same_form \<lparr>summary = ''Trip'', description = None, location = None,
          ev_start = \<lparr>date = Some ''2026-01-01'', dateTime = None, timeZone = None\<rparr>,
          ev_end = \<lparr>date = Some ''2026-01-02'', dateTime = None, timeZone = None\<rparr>,
          attendees = None, recurrence = None\<rparr>"
proof -
  let ?v = "\<lparr>event_summary = Some ''Trip'', event_description = None, event_location = None,
      startDate = Inr (Some \<lparr>isDate = True, toISOString = Inr ''2026-01-01T00:00:00.000Z'',
                             tzid = None\<rparr>),
      endDate = Inr (Some \<lparr>isDate = True, toISOString = Inr ''2026-01-02T00:00:00.000Z'',
                           tzid = None\<rparr>),
      attendee_props = [], rrule = None, summary_prop = Some ''Trip''\<rparr>"
  let ?g = "\<lparr>summary = ''Trip'', description = None, location = None,
          ev_start = \<lparr>date = Some ''2026-01-01'', dateTime = None, timeZone = None\<rparr>,
          ev_end = \<lparr>date = Some ''2026-01-02'', dateTime = None, timeZone = None\<rparr>,
          attendees = None, recurrence = None\<rparr>"
  have m: "mapRecord ''Europe/Paris'' ?v = Inr ?g"
    by (simp add: mapRecord_def map_time_def or_default_def truthy_string_def)
  from mapRecord_forms [OF m] have "same_form ?g" by simp
  with m show ?thesis by simp
qed

text \<open>
  C1 as stated fails: a record whose start is a date-only value and whose end is a
  date-time value is mapped to an event with an all-day start and a timed end.
\<close>

theorem mapRecord_mixed_forms:
  "mapRecord ''Europe/Paris''
     \<lparr>event_summary = Some ''Trip'', event_description = None, event_location = None,
      startDate = Inr (Some \<lparr>isDate = True, toISOString = Inr ''2026-01-01T00:00:00.000Z'',
                             tzid = None\<rparr>),
      endDate = Inr (Some \<lparr>isDate = False, toISOString = Inr ''2026-01-02T10:00:00.000Z'',
                           tzid = Some ''UTC''\<rparr>),
      attendee_props = [], rrule = None, summary_prop = Some ''Trip''\<rparr>
   = Inr \<lparr>summary = ''Trip'', description = None, location = None,
          ev_start = \<lparr>date = Some ''2026-01-01'', dateTime = None, timeZone = None\<rparr>,
          ev_end = \<lparr>date = None, dateTime = Some ''2026-01-02T10:00:00.000Z'',
                    timeZone = Some ''UTC''\<rparr>,
          attendees = None, recurrence = None\<rparr> \<and>
   \<not> same_form \<lparr>summary = ''Trip'', description = None, location = None,
          ev_start = \<lparr>date = Some ''2026-01-01'', dateTime = None, timeZone = None\<rparr>,
          ev_end = \<lparr>date = None, dateTime = Some ''2026-01-02T10:00:00.000Z'',
                    timeZone = Some ''UTC''\<rparr>,
          attendees = None, recurrence = None\<rparr>"
  by (simp add: mapRecord_def map_time_def or_default_def truthy_string_def same_form_def
      all_day_def timed_def)







section \<open>The import loop\<close>







section \<open>What the patterns of parseDateTime capture\<close>

lemma digits_upto_number:
  assumes "digits_upto n s = Some (ds, r)"
  shows "is_number ds"
proof -
  from assms have ds: "ds = takeWhile isDigit (take n s)" and ne: "ds \<noteq> []"
    by (auto simp: digits_upto_def Let_def split: if_splits)
  have "\<forall>c\<in>set (takeWhile isDigit (take n s)). isDigit c"
    by (auto dest: set_takeWhileD)
  with ds ne show ?thesis by (simp add: is_number_def)
qed

lemma digits_exact_number:
  assumes "digits_exact n s = Some (ds, r)" "0 < n"
  shows "is_number ds"
proof -
  from assms(1) have ds: "ds = take n s" and len: "n \<le> length s"
    and tw: "takeWhile isDigit (take n s) = take n s"
    by (auto simp: digits_exact_def split: if_splits)
  from tw have "\<forall>c\<in>set (take n s). isDigit c"
    by (simp add: takeWhile_eq_all_conv)
  moreover from len assms(2) have "take n s \<noteq> []" by auto
  ultimately show ?thesis using ds by (simp add: is_number_def)
qed

lemma literal_lower:
  assumes "literal i p s = Some (c, r)"
  shows "(if i then toLowerCase c else c) = p"
  using assms by (auto simp: literal_def split: if_splits)

lemma alternatives_lower:
  assumes "alternatives i ps s = Some (c, r)"
  shows "(if i then toLowerCase c else c) \<in> set ps"
  using assms
proof (induction ps)
  case Nil
  then show ?case by simp
next
  case (Cons p ps)
  show ?case
  proof (cases "literal i p s")
    case None
    with Cons show ?thesis by simp
  next
    case (Some a)
    with Cons.prems have "literal i p s = Some (c, r)" by simp
    from literal_lower [OF this] show ?thesis by simp
  qed
qed

lemma opt_minutes_number:
  assumes "opt_minutes s = (Some m, r)"
  shows "is_number m"
proof -
  from assms have "\<exists>x. digits_exact 2 x = Some (m, r)"
    by (auto simp: opt_minutes_def split: option.splits prod.splits)
  then obtain x where "digits_exact 2 x = Some (m, r)" by blast
  then show ?thesis by (rule digits_exact_number) simp
qed

lemma opt_meridiem_lower:
  assumes "opt_meridiem i s = (Some a, r)"
  shows "(if i then toLowerCase a else a) \<in> {''am'', ''pm''}"
proof -
  from assms have "alternatives i [''am'', ''pm''] s = Some (a, r)"
    by (auto simp: opt_meridiem_def split: option.splits prod.splits)
  from alternatives_lower [OF this] show ?thesis by simp
qed

lemma time_of_day_captures:
  assumes "time_of_day i b s = Some (hour, mins, ampm)"
  shows "is_number hour"
    and "\<And>m. mins = Some m \<Longrightarrow> is_number m"
    and "\<And>a. ampm = Some a \<Longrightarrow> (if i then toLowerCase a else a) \<in> {''am'', ''pm''}"
    and "b \<Longrightarrow> ampm \<noteq> None"
proof -
  from assms have "\<exists>r1. digits_upto 2 s = Some (hour, r1)"
    by (auto simp: time_of_day_def split: option.splits prod.splits if_splits)
  then show "is_number hour" using digits_upto_number by blast
  from assms have m: "\<exists>x r. opt_minutes x = (mins, r)"
    by (auto simp: time_of_day_def split: option.splits prod.splits if_splits)
  show "is_number m" if "mins = Some m" for m
    using m that opt_minutes_number by blast
  from assms have a: "\<exists>x r. opt_meridiem i x = (ampm, r)"
    by (auto simp: time_of_day_def split: option.splits prod.splits if_splits)
  show "(if i then toLowerCase a else a) \<in> {''am'', ''pm''}" if "ampm = Some a" for a
    using a that opt_meridiem_lower by blast
  show "ampm \<noteq> None" if b
    using assms that by (auto simp: time_of_day_def split: option.splits prod.splits if_splits)
qed

lemma relMatch_captures:
  assumes "relMatch s = Some (rel, hour, mins, ampm)"
  shows "is_number hour" and "\<And>m. mins = Some m \<Longrightarrow> is_number m"
proof -
  from assms obtain x where t: "time_of_day True False x = Some (hour, mins, ampm)"
    by (auto simp: relMatch_def split: option.splits prod.splits)
  from time_of_day_captures(1,2) [OF t] show "is_number hour"
    and "\<And>m. mins = Some m \<Longrightarrow> is_number m" by blast+
qed

lemma dayMatch_captures:
  assumes "dayMatch s = Some (next, day, hour, mins, ampm)"
  shows "is_number hour" and "\<And>m. mins = Some m \<Longrightarrow> is_number m"
proof -
  from assms obtain x where t: "time_of_day True False x = Some (hour, mins, ampm)"
    by (auto simp: dayMatch_def Let_def split: option.splits prod.splits)
  from time_of_day_captures(1,2) [OF t] show "is_number hour"
    and "\<And>m. mins = Some m \<Longrightarrow> is_number m" by blast+
qed

lemma month_time_captures:
  assumes "month_time s = Some (Some (hour, mins, ampm))"
  shows "is_number hour" and "\<And>m. mins = Some m \<Longrightarrow> is_number m"
proof -
  from assms obtain x where t: "time_of_day True False x = Some (hour, mins, ampm)"
    by (auto simp: month_time_def split: option.splits if_splits)
  from time_of_day_captures(1,2) [OF t] show "is_number hour"
    and "\<And>m. mins = Some m \<Longrightarrow> is_number m" by blast+
qed

lemma digits_exact_number4: "digits_exact 4 s = Some (ds, r) \<Longrightarrow> is_number ds"
  using digits_exact_number [of 4 s ds r] by simp

lemma digits_exact_number2: "digits_exact 2 s = Some (ds, r) \<Longrightarrow> is_number ds"
  using digits_exact_number [of 2 s ds r] by simp

lemma monthMatch_captures:
  assumes "monthMatch s = Some (month, day, year, time)"
  shows "is_number day"
    and "\<And>y. year = Some y \<Longrightarrow> is_number y"
    and "\<And>hour mins ampm. time = Some (hour, mins, ampm) \<Longrightarrow>
           is_number hour \<and> (\<forall>m. mins = Some m \<longrightarrow> is_number m)"
proof -
  from assms have d: "\<exists>r2 r3. digits_upto 2 r2 = Some (day, r3)"
    by (auto simp: monthMatch_def Let_def split: option.splits prod.splits)
  then show "is_number day" using digits_upto_number by blast
  from assms have y: "year = None \<or> (\<exists>y r4 r5. year = Some y \<and> digits_exact 4 r4 = Some (y, r5))"
    by (auto simp: monthMatch_def Let_def split: option.splits prod.splits)
  show "is_number y" if "year = Some y" for y
    using y that digits_exact_number4 by auto
  from assms have mt: "\<exists>x. month_time x = Some time"
    by (auto simp: monthMatch_def Let_def split: option.splits prod.splits)
  then obtain x where mt: "month_time x = Some time" by blast
  show "is_number hour \<and> (\<forall>m. mins = Some m \<longrightarrow> is_number m)"
    if "time = Some (hour, mins, ampm)" for hour mins ampm
    using month_time_captures [of x hour mins ampm] mt that by blast
qed

lemma clock_captures:
  assumes "clock s = Some (hour, mins)"
  shows "is_number hour" and "is_number mins"
proof -
  from assms have "\<exists>r1. digits_upto 2 s = Some (hour, r1)"
    by (auto simp: clock_def split: option.splits prod.splits if_splits)
  then show "is_number hour" using digits_upto_number by blast
  from assms have "\<exists>r2 r3. digits_exact 2 r2 = Some (mins, r3)"
    by (auto simp: clock_def split: option.splits prod.splits if_splits)
  then show "is_number mins" using digits_exact_number2 by blast
qed

lemma dateTimeMatch_captures:
  assumes "dateTimeMatch s = Some (month, day, year, hour, mins)"
  shows "is_number month \<and> is_number day \<and> is_number year \<and> is_number hour \<and> is_number mins"
proof -
  from assms have "\<exists>r. digits_upto 2 s = Some (month, r)"
    by (auto simp: dateTimeMatch_def split: option.splits prod.splits)
  then have 1: "is_number month" using digits_upto_number by blast
  from assms have "\<exists>x r. digits_upto 2 x = Some (day, r)"
    by (auto simp: dateTimeMatch_def split: option.splits prod.splits)
  then have 2: "is_number day" using digits_upto_number by blast
  from assms have "\<exists>x r. digits_exact 4 x = Some (year, r)"
    by (auto simp: dateTimeMatch_def split: option.splits prod.splits)
  then have 3: "is_number year" using digits_exact_number4 by blast
  from assms have "\<exists>x. clock x = Some (hour, mins)"
    by (auto simp: dateTimeMatch_def split: option.splits prod.splits)
  then have 4: "is_number hour \<and> is_number mins" using clock_captures by blast
  from 1 2 3 4 show ?thesis by simp
qed

lemma isoDateTimeMatch_captures:
  assumes "isoDateTimeMatch s = Some (year, month, day, hour, mins)"
  shows "is_number month \<and> is_number day \<and> is_number year \<and> is_number hour \<and> is_number mins"
proof -
  from assms have "\<exists>r. digits_exact 4 s = Some (year, r)"
    by (auto simp: isoDateTimeMatch_def split: option.splits prod.splits)
  then have 1: "is_number year" using digits_exact_number4 by blast
  from assms have "\<exists>x1 r1 x2 r2. digits_upto 2 x1 = Some (month, r1) \<and> digits_upto 2 x2 = Some (day, r2)"
    by (auto simp: isoDateTimeMatch_def split: option.splits prod.splits)
  then have 2: "is_number month \<and> is_number day" using digits_upto_number by blast
  from assms have "\<exists>x. clock x = Some (hour, mins)"
    by (auto simp: isoDateTimeMatch_def split: option.splits prod.splits)
  then have 4: "is_number hour \<and> is_number mins" using clock_captures by blast
  from 1 2 4 show ?thesis by simp
qed

lemma ampmMatch_captures:
  assumes "ampmMatch s = Some (hour, mins, ampm)"
  shows "is_number hour" and "\<And>m. mins = Some m \<Longrightarrow> is_number m"
    and "ampm = ''am'' \<or> ampm = ''pm''"
proof -
  from assms have t: "time_of_day False True s = Some (hour, mins, Some ampm)"
    by (auto simp: ampmMatch_def split: option.splits prod.splits)
  from time_of_day_captures(1,2,3) [OF t] show "is_number hour"
    and "\<And>m. mins = Some m \<Longrightarrow> is_number m"
    and "ampm = ''am'' \<or> ampm = ''pm''" by auto
qed

section \<open>What the rules of parseDateTime return\<close>

lemma parseInt_number: "is_number ds \<Longrightarrow> parseInt ds = Some (radixValue 10 ds)"
  unfolding is_number_def using parseInt_digits by blast

lemma parseInt_zero: "parseInt ''0'' = Some 0"
  by code_simp

lemma minute_or_zero_value:
  assumes "\<And>m. mins = Some m \<Longrightarrow> is_number m"
  shows "minute_or_zero mins = Some (minutes_value mins)"
proof (cases mins)
  case None
  then show ?thesis by (simp add: minute_or_zero_def minutes_value_def parseInt_zero)
next
  case (Some m)
  with assms have n: "is_number m" by simp
  then have "m \<noteq> []" by (simp add: is_number_def)
  with Some n show ?thesis
    by (simp add: minute_or_zero_def minutes_value_def parseInt_number)
qed

lemma meridiem_hour_value:
  "meridiem_hour (Some H) m = Some (hour12 H m)"
  by (cases m) (auto simp: meridiem_hour_def hour12_def Let_def)

lemma setHours_value:
  "Date_setHours (Some t) (Some h) (Some m) (Some 0) (Some 0) =
     Some (MakeDate (Day t) (MakeTime h m 0 0))"
  by (simp add: Date_setHours_def)

lemma Day_add_days: "Day (t + k * msPerDay) = Day t + k"
  by (simp add: Day_def msPerDay_def)

lemma Day_MakeDate_midnight: "Day (MakeDate d (MakeTime 0 0 0 0)) = d"
  by (simp add: Day_def MakeDate_def MakeTime_def msPerDay_def)

lemma whole_minute_seconds:
  "Date_getSeconds (Some (MakeDate d (MakeTime h m 0 0))) = Some 0 \<and>
   Date_getMilliseconds (Some (MakeDate d (MakeTime h m 0 0))) = Some 0"
proof -
  have t: "MakeDate d (MakeTime h m 0 0) = 1000 * (60 * (1440 * d + 60 * h + m))"
    by (simp add: MakeDate_def MakeTime_def msPerDay_def msPerHour_def msPerMinute_def
        msPerSecond_def)
  show ?thesis
    unfolding Date_getSeconds_def Date_getMilliseconds_def t msPerSecond_def by simp
qed

lemma clock_of_day:
  assumes "0 \<le> h" "h < 24" "0 \<le> m" "m < 60"
  shows "Date_getHours (Some (MakeDate d (MakeTime h m 0 0))) = Some h \<and>
         Date_getMinutes (Some (MakeDate d (MakeTime h m 0 0))) = Some m"
proof -
  have a: "MakeDate d (MakeTime h m 0 0) = (24 * d + h) * 3600000 + m * 60000"
    by (simp add: MakeDate_def MakeTime_def msPerDay_def msPerHour_def msPerMinute_def
        msPerSecond_def)
  have b: "MakeDate d (MakeTime h m 0 0) = (60 * (24 * d + h) + m) * 60000"
    by (simp add: MakeDate_def MakeTime_def msPerDay_def msPerHour_def msPerMinute_def
        msPerSecond_def)
  have "m * 60000 < 3600000" "0 \<le> m * 60000" using assms by simp_all
  then have "(m * 60000) div 3600000 = 0" by simp
  then have "((24 * d + h) * 3600000 + m * 60000) div 3600000 = 24 * d + h"
    by (simp add: div_mult_self3 [of 3600000 "24 * d + h" "m * 60000"])
  moreover have "(24 * d + h) mod 24 = h" using assms by simp
  ultimately have hh: "(MakeDate d (MakeTime h m 0 0) div msPerHour) mod 24 = h"
    unfolding a msPerHour_def by simp
  have "((60 * (24 * d + h) + m) * 60000) div 60000 = 60 * (24 * d + h) + m" by simp
  moreover have "(60 * (24 * d + h) + m) mod 60 = m mod 60" by (rule mod_mult_self4)
  moreover have "m mod 60 = m" using assms(3,4) by simp
  ultimately have mm: "(MakeDate d (MakeTime h m 0 0) div msPerMinute) mod 60 = m"
    unfolding b msPerMinute_def by simp
  show ?thesis
    unfolding Date_getHours_def Date_getMinutes_def using hh mm by simp
qed

lemma tomorrow_value:
  "Date_setDate (Some now) (num_add (Date_getDate (Some now)) (Some 1)) = Some (now + msPerDay)"
  using setDate_getDate [of now 1] by simp

lemma rule_relative_eq:
  assumes "relMatch lower = Some (rel, hour, mins, ampm)"
  shows "rule_relative now lower =
     Some (Some (MakeDate (Day now + (if rel = ''tomorrow'' then 1 else 0))
                   (MakeTime (hour12 (radixValue 10 hour) (map_option toLowerCase ampm))
                      (minutes_value mins) 0 0)))"
proof -
  from relMatch_captures [OF assms] have h: "parseInt hour = Some (radixValue 10 hour)"
    and m: "minute_or_zero mins = Some (minutes_value mins)"
    by (auto intro: parseInt_number minute_or_zero_value)
  have d: "Day (now + msPerDay) = Day now + 1" using Day_add_days [of now 1] by simp
  show ?thesis
    by (simp add: rule_relative_def assms Let_def h m meridiem_hour_value tomorrow_value
        setHours_value d)
qed

lemma rule_weekday_eq:
  assumes "dayMatch lower = Some (next, day, hour, mins, ampm)"
  shows "rule_weekday now lower =
     Some (Some (MakeDate
        (Day now +
           (let k = findIndex (\<lambda>w. w = toLowerCase day) weekdays - WeekDay now
            in if k \<le> 0 \<or> next \<noteq> None then k + 7 else k))
        (MakeTime (hour12 (radixValue 10 hour) (map_option toLowerCase ampm))
           (minutes_value mins) 0 0)))"
proof -
  from dayMatch_captures [OF assms] have h: "parseInt hour = Some (radixValue 10 hour)"
    and m: "minute_or_zero mins = Some (minutes_value mins)"
    by (auto intro: parseInt_number minute_or_zero_value)
  have u: "num_add (Some a) (map_option uminus (Date_getDay (Some now))) = Some (a - WeekDay now)" for a
    by (simp add: num_add_def Date_getDay_def)
  have v: "num_add (Some a) (Some 7) = Some (a + 7)" for a
    by (simp add: num_add_def)
  show ?thesis
    by (simp add: rule_weekday_def assms Let_def h m meridiem_hour_value u v
        setDate_getDate setHours_value Day_add_days)
qed

lemma rule_month_eq:
  assumes "monthMatch lower = Some (month, day, year, time)"
  shows "rule_month now lower =
     Some (Some (MakeDate
        (MakeDay (MakeFullYear (case year of None \<Rightarrow> YearFromTime now | Some y \<Rightarrow> radixValue 10 y))
           (findIndex (\<lambda>m. startsWith (toLowerCase month) m) months)
           (radixValue 10 day))
        (case time of
           None \<Rightarrow> MakeTime 0 0 0 0
         | Some (hour, mins, ampm) \<Rightarrow>
             MakeTime (hour12 (radixValue 10 hour) (map_option toLowerCase ampm))
               (minutes_value mins) 0 0)))"
proof -
  note c = monthMatch_captures [OF assms]
  have d: "parseInt day = Some (radixValue 10 day)" using c(1) by (rule parseInt_number)
  have y: "(case year of Some ys \<Rightarrow> parseInt ys | None \<Rightarrow> Date_getFullYear (Some now)) =
      Some (case year of None \<Rightarrow> YearFromTime now | Some y \<Rightarrow> radixValue 10 y)"
    using c(2) by (cases year) (simp_all add: Date_getFullYear_def parseInt_number)
  have n: "Date_new (Some a) (Some b) (Some e) (Some 0) (Some 0) =
      Some (MakeDate (MakeDay (MakeFullYear a) b e) (MakeTime 0 0 0 0))" for a b e
    by (simp add: Date_new_def)
  show ?thesis
  proof (cases time)
    case None
    then show ?thesis
      by (simp add: rule_month_def assms Let_def d y n setHours_value Day_MakeDate_midnight)
  next
    case (Some t)
    obtain hour mins ampm where t: "t = (hour, mins, ampm)" by (cases t) auto
    from c(3) [of hour mins ampm] Some t
    have h: "parseInt hour = Some (radixValue 10 hour)"
      and m: "minute_or_zero mins = Some (minutes_value mins)"
      by (auto intro: parseInt_number minute_or_zero_value)
    show ?thesis
      by (simp add: rule_month_def assms Let_def d y n Some t h m meridiem_hour_value
          setHours_value Day_MakeDate_midnight)
  qed
qed

lemma rule_slash_eq:
  assumes "dateTimeMatch input = Some (month, day, year, hour, mins)"
  shows "rule_slash input =
     Some (Some (MakeDate
        (MakeDay (MakeFullYear (radixValue 10 year)) (radixValue 10 month - 1) (radixValue 10 day))
        (MakeTime (radixValue 10 hour) (radixValue 10 mins) 0 0)))"
proof -
  from dateTimeMatch_captures [OF assms] have
    "parseInt month = Some (radixValue 10 month)" "parseInt day = Some (radixValue 10 day)"
    "parseInt year = Some (radixValue 10 year)" "parseInt hour = Some (radixValue 10 hour)"
    "parseInt mins = Some (radixValue 10 mins)"
    by (auto intro: parseInt_number)
  then show ?thesis
    by (simp add: rule_slash_def assms Let_def Date_new_def num_add_def)
qed

lemma rule_iso_eq:
  assumes "isoDateTimeMatch input = Some (year, month, day, hour, mins)"
  shows "rule_iso input =
     Some (Some (MakeDate
        (MakeDay (MakeFullYear (radixValue 10 year)) (radixValue 10 month - 1) (radixValue 10 day))
        (MakeTime (radixValue 10 hour) (radixValue 10 mins) 0 0)))"
proof -
  from isoDateTimeMatch_captures [OF assms] have
    "parseInt month = Some (radixValue 10 month)" "parseInt day = Some (radixValue 10 day)"
    "parseInt year = Some (radixValue 10 year)" "parseInt hour = Some (radixValue 10 hour)"
    "parseInt mins = Some (radixValue 10 mins)"
    by (auto intro: parseInt_number)
  then show ?thesis
    by (simp add: rule_iso_def assms Let_def Date_new_def num_add_def)
qed

lemma rule_time_eq:
  assumes "timeMatch input = Some (hour, mins)"
  shows "rule_time now input =
     Some (Some (MakeDate (Day now) (MakeTime (radixValue 10 hour) (radixValue 10 mins) 0 0)))"
proof -
  from assms have "clock input = Some (hour, mins)" by (simp add: timeMatch_def)
  from clock_captures [OF this] have
    "parseInt hour = Some (radixValue 10 hour)" "parseInt mins = Some (radixValue 10 mins)"
    by (auto intro: parseInt_number)
  then show ?thesis
    by (simp add: rule_time_def assms setHours_value)
qed

lemma rule_ampm_eq:
  assumes "ampmMatch lower = Some (hour, mins, ampm)"
  shows "rule_ampm now lower =
     Some (Some (MakeDate (Day now)
        (MakeTime (hour12 (radixValue 10 hour) (Some ampm)) (minutes_value mins) 0 0)))"
proof -
  from ampmMatch_captures(1,2) [OF assms] have h: "parseInt hour = Some (radixValue 10 hour)"
    and m: "minute_or_zero mins = Some (minutes_value mins)"
    by (auto intro: parseInt_number minute_or_zero_value)
  show ?thesis
    by (simp add: rule_ampm_def assms Let_def h m meridiem_hour_value setHours_value)
qed

lemma rule_none:
  "relMatch lower = None \<Longrightarrow> rule_relative now lower = None"
  "dayMatch lower = None \<Longrightarrow> rule_weekday now lower = None"
  "monthMatch lower = None \<Longrightarrow> rule_month now lower = None"
  "dateTimeMatch input = None \<Longrightarrow> rule_slash input = None"
  "isoDateTimeMatch input = None \<Longrightarrow> rule_iso input = None"
  "timeMatch input = None \<Longrightarrow> rule_time now input = None"
  "ampmMatch lower = None \<Longrightarrow> rule_ampm now lower = None"
  by (simp_all add: rule_relative_def rule_weekday_def rule_month_def rule_slash_def
      rule_iso_def rule_time_def rule_ampm_def)

section \<open>parseDateTime\<close>

lemma parseDateTime_chain:
  assumes "lower = trim (toLowerCase input)" "lower \<noteq> ''today''" "lower \<noteq> ''tomorrow''"
  shows "parseDateTime np now input =
     (case rule_relative now lower of Some d \<Rightarrow> Inr d | None \<Rightarrow>
     (case rule_weekday now lower of Some d \<Rightarrow> Inr d | None \<Rightarrow>
     (case rule_month now lower of Some d \<Rightarrow> Inr d | None \<Rightarrow>
     (case rule_slash input of Some d \<Rightarrow> Inr d | None \<Rightarrow>
     (case rule_iso input of Some d \<Rightarrow> Inr d | None \<Rightarrow>
     (case rule_time now input of Some d \<Rightarrow> Inr d | None \<Rightarrow>
     (case rule_ampm now lower of Some d \<Rightarrow> Inr d | None \<Rightarrow>
     (if np input \<noteq> None then Inr (np input)
      else Inl (Error (''Cannot parse date/time: '' @ input))))))))))"
  unfolding parseDateTime_def Let_def assms(1) using assms(2,3) [unfolded assms(1)] by simp

lemma parseDateTime_literals:
  assumes "lower = trim (toLowerCase input)"
  shows "lower = ''today'' \<Longrightarrow> parseDateTime np now input = Inr (Some now)"
    and "lower = ''tomorrow'' \<Longrightarrow> parseDateTime np now input = Inr (Some (now + msPerDay))"
  using assms by (simp_all add: parseDateTime_def Let_def tomorrow_value)

lemma relMatch_literals: "relMatch ''today'' = None" "relMatch ''tomorrow'' = None"
  by code_simp+

lemma rule_whole_minute:
  "rule_relative now lower = Some d \<Longrightarrow> \<exists>D h m. d = Some (MakeDate D (MakeTime h m 0 0))"
  "rule_weekday now lower = Some d \<Longrightarrow> \<exists>D h m. d = Some (MakeDate D (MakeTime h m 0 0))"
  "rule_month now lower = Some d \<Longrightarrow> \<exists>D h m. d = Some (MakeDate D (MakeTime h m 0 0))"
  "rule_slash input = Some d \<Longrightarrow> \<exists>D h m. d = Some (MakeDate D (MakeTime h m 0 0))"
  "rule_iso input = Some d \<Longrightarrow> \<exists>D h m. d = Some (MakeDate D (MakeTime h m 0 0))"
  "rule_time now input = Some d \<Longrightarrow> \<exists>D h m. d = Some (MakeDate D (MakeTime h m 0 0))"
  "rule_ampm now lower = Some d \<Longrightarrow> \<exists>D h m. d = Some (MakeDate D (MakeTime h m 0 0))"
proof -
  show "\<exists>D h m. d = Some (MakeDate D (MakeTime h m 0 0))" if a: "rule_relative now lower = Some d"
  proof (cases "relMatch lower")
    case None
    with a rule_none(1) [of lower now] show ?thesis by simp
  next
    case (Some c)
    obtain rel hour mins ampm where "c = (rel, hour, mins, ampm)" by (cases c) auto
    with Some a rule_relative_eq [of lower rel hour mins ampm now] show ?thesis by auto
  qed
  show "\<exists>D h m. d = Some (MakeDate D (MakeTime h m 0 0))" if a: "rule_weekday now lower = Some d"
  proof (cases "dayMatch lower")
    case None
    with a rule_none(2) [of lower now] show ?thesis by simp
  next
    case (Some c)
    obtain nx day hour mins ampm where "c = (nx, day, hour, mins, ampm)" by (cases c) auto
    with Some a rule_weekday_eq [of lower nx day hour mins ampm now] show ?thesis by auto
  qed
  show "\<exists>D h m. d = Some (MakeDate D (MakeTime h m 0 0))" if a: "rule_month now lower = Some d"
  proof (cases "monthMatch lower")
    case None
    with a rule_none(3) [of lower now] show ?thesis by simp
  next
    case (Some c)
    obtain month day year time where c: "c = (month, day, year, time)" by (cases c) auto
    show ?thesis
    proof (cases time)
      case None
      with c Some a rule_month_eq [of lower month day year time now] show ?thesis by auto
    next
      case (Some t)
      obtain hour mins ampm where "t = (hour, mins, ampm)" by (cases t) auto
      with Some c \<open>monthMatch lower = Some c\<close> a rule_month_eq [of lower month day year time now]
      show ?thesis by auto
    qed
  qed
  show "\<exists>D h m. d = Some (MakeDate D (MakeTime h m 0 0))" if a: "rule_slash input = Some d"
  proof (cases "dateTimeMatch input")
    case None
    with a rule_none(4) [of input] show ?thesis by simp
  next
    case (Some c)
    obtain month day year hour mins where "c = (month, day, year, hour, mins)" by (cases c) auto
    with Some a rule_slash_eq [of input month day year hour mins] show ?thesis by auto
  qed
  show "\<exists>D h m. d = Some (MakeDate D (MakeTime h m 0 0))" if a: "rule_iso input = Some d"
  proof (cases "isoDateTimeMatch input")
    case None
    with a rule_none(5) [of input] show ?thesis by simp
  next
    case (Some c)
    obtain year month day hour mins where "c = (year, month, day, hour, mins)" by (cases c) auto
    with Some a rule_iso_eq [of input year month day hour mins] show ?thesis by auto
  qed
  show "\<exists>D h m. d = Some (MakeDate D (MakeTime h m 0 0))" if a: "rule_time now input = Some d"
  proof (cases "timeMatch input")
    case None
    with a rule_none(6) [of input now] show ?thesis by simp
  next
    case (Some c)
    obtain hour mins where "c = (hour, mins)" by (cases c) auto
    with Some a rule_time_eq [of input hour mins now] show ?thesis by auto
  qed
  show "\<exists>D h m. d = Some (MakeDate D (MakeTime h m 0 0))" if a: "rule_ampm now lower = Some d"
  proof (cases "ampmMatch lower")
    case None
    with a rule_none(7) [of lower now] show ?thesis by simp
  next
    case (Some c)
    obtain hour mins ampm where "c = (hour, mins, ampm)" by (cases c) auto
    with Some a rule_ampm_eq [of lower hour mins ampm now] show ?thesis by auto
  qed
qed

lemma rule_None_iff:
  "rule_relative now lower = None \<longleftrightarrow> relMatch lower = None"
  "rule_weekday now lower = None \<longleftrightarrow> dayMatch lower = None"
  "rule_month now lower = None \<longleftrightarrow> monthMatch lower = None"
  "rule_slash input = None \<longleftrightarrow> dateTimeMatch input = None"
  "rule_iso input = None \<longleftrightarrow> isoDateTimeMatch input = None"
  "rule_time now input = None \<longleftrightarrow> timeMatch input = None"
  "rule_ampm now lower = None \<longleftrightarrow> ampmMatch lower = None"
proof -
  show "rule_relative now lower = None \<longleftrightarrow> relMatch lower = None"
    using rule_none(1) [of lower now] rule_relative_eq [of lower _ _ _ _ now]
    by (cases "relMatch lower") auto
  show "rule_weekday now lower = None \<longleftrightarrow> dayMatch lower = None"
    using rule_none(2) [of lower now] rule_weekday_eq [of lower _ _ _ _ _ now]
    by (cases "dayMatch lower") auto
  show "rule_month now lower = None \<longleftrightarrow> monthMatch lower = None"
    using rule_none(3) [of lower now] rule_month_eq [of lower _ _ _ _ now]
    by (cases "monthMatch lower") auto
  show "rule_slash input = None \<longleftrightarrow> dateTimeMatch input = None"
    using rule_none(4) [of input] rule_slash_eq [of input]
    by (cases "dateTimeMatch input") auto
  show "rule_iso input = None \<longleftrightarrow> isoDateTimeMatch input = None"
    using rule_none(5) [of input] rule_iso_eq [of input]
    by (cases "isoDateTimeMatch input") auto
  show "rule_time now input = None \<longleftrightarrow> timeMatch input = None"
    using rule_none(6) [of input now] rule_time_eq [of input _ _ now]
    by (cases "timeMatch input") auto
  show "rule_ampm now lower = None \<longleftrightarrow> ampmMatch lower = None"
    using rule_none(7) [of lower now] rule_ampm_eq [of lower _ _ _ now]
    by (cases "ampmMatch lower") auto
qed

lemma parseDateTime_matched:
  assumes "lower = trim (toLowerCase input)" "lower \<noteq> ''today''" "lower \<noteq> ''tomorrow''"
    and "\<not> no_rule_matches input"
  shows "\<exists>D h m. parseDateTime np now input = Inr (Some (MakeDate D (MakeTime h m 0 0)))"
proof -
  let ?P = "\<lambda>x. \<exists>D h m. x = Inr (Some (MakeDate D (MakeTime h m 0 0)))"
  let ?R8 = "if np input \<noteq> None then Inr (np input)
             else Inl (Error (''Cannot parse date/time: '' @ input))"
  let ?R7 = "case rule_ampm now lower of Some d \<Rightarrow> Inr d | None \<Rightarrow> ?R8"
  let ?R6 = "case rule_time now input of Some d \<Rightarrow> Inr d | None \<Rightarrow> ?R7"
  let ?R5 = "case rule_iso input of Some d \<Rightarrow> Inr d | None \<Rightarrow> ?R6"
  let ?R4 = "case rule_slash input of Some d \<Rightarrow> Inr d | None \<Rightarrow> ?R5"
  let ?R3 = "case rule_month now lower of Some d \<Rightarrow> Inr d | None \<Rightarrow> ?R4"
  let ?R2 = "case rule_weekday now lower of Some d \<Rightarrow> Inr d | None \<Rightarrow> ?R3"
  let ?R1 = "case rule_relative now lower of Some d \<Rightarrow> Inr d | None \<Rightarrow> ?R2"
  have s7: "?P ?R7" if "rule_ampm now lower \<noteq> None"
  proof -
    from that obtain d where d: "rule_ampm now lower = Some d" by auto
    from rule_whole_minute(7) [OF d] show ?thesis unfolding d by simp
  qed
  have s6: "?P ?R6" if "rule_time now input \<noteq> None \<or> rule_ampm now lower \<noteq> None"
  proof (cases "rule_time now input")
    case None
    with that s7 show ?thesis by simp
  next
    case (Some d)
    from rule_whole_minute(6) [OF Some] show ?thesis unfolding Some by simp
  qed
  have s5: "?P ?R5"
    if "rule_iso input \<noteq> None \<or> rule_time now input \<noteq> None \<or> rule_ampm now lower \<noteq> None"
  proof (cases "rule_iso input")
    case None
    with that s6 show ?thesis by simp
  next
    case (Some d)
    from rule_whole_minute(5) [OF Some] show ?thesis unfolding Some by simp
  qed
  have s4: "?P ?R4"
    if "rule_slash input \<noteq> None \<or> rule_iso input \<noteq> None \<or> rule_time now input \<noteq> None \<or>
        rule_ampm now lower \<noteq> None"
  proof (cases "rule_slash input")
    case None
    with that s5 show ?thesis by simp
  next
    case (Some d)
    from rule_whole_minute(4) [OF Some] show ?thesis unfolding Some by simp
  qed
  have s3: "?P ?R3"
    if "rule_month now lower \<noteq> None \<or> rule_slash input \<noteq> None \<or> rule_iso input \<noteq> None \<or>
        rule_time now input \<noteq> None \<or> rule_ampm now lower \<noteq> None"
  proof (cases "rule_month now lower")
    case None
    with that s4 show ?thesis by simp
  next
    case (Some d)
    from rule_whole_minute(3) [OF Some] show ?thesis unfolding Some by simp
  qed
  have s2: "?P ?R2"
    if "rule_weekday now lower \<noteq> None \<or> rule_month now lower \<noteq> None \<or>
        rule_slash input \<noteq> None \<or> rule_iso input \<noteq> None \<or>
        rule_time now input \<noteq> None \<or> rule_ampm now lower \<noteq> None"
  proof (cases "rule_weekday now lower")
    case None
    with that s3 show ?thesis by simp
  next
    case (Some d)
    from rule_whole_minute(2) [OF Some] show ?thesis unfolding Some by simp
  qed
  have s1: "?P ?R1"
    if "rule_relative now lower \<noteq> None \<or> rule_weekday now lower \<noteq> None \<or>
        rule_month now lower \<noteq> None \<or> rule_slash input \<noteq> None \<or> rule_iso input \<noteq> None \<or>
        rule_time now input \<noteq> None \<or> rule_ampm now lower \<noteq> None"
  proof (cases "rule_relative now lower")
    case None
    with that s2 show ?thesis by simp
  next
    case (Some d)
    from rule_whole_minute(1) [OF Some] show ?thesis unfolding Some by simp
  qed
  have n: "no_rule_matches input =
      (lower \<noteq> ''today'' \<and> lower \<noteq> ''tomorrow'' \<and> relMatch lower = None \<and>
       dayMatch lower = None \<and> monthMatch lower = None \<and> dateTimeMatch input = None \<and>
       isoDateTimeMatch input = None \<and> timeMatch input = None \<and> ampmMatch lower = None)"
    unfolding no_rule_matches_def Let_def assms(1) ..
  from assms(2,3,4) have
    "relMatch lower \<noteq> None \<or> dayMatch lower \<noteq> None \<or> monthMatch lower \<noteq> None \<or>
     dateTimeMatch input \<noteq> None \<or> isoDateTimeMatch input \<noteq> None \<or>
     timeMatch input \<noteq> None \<or> ampmMatch lower \<noteq> None"
    unfolding n by simp
  then have "rule_relative now lower \<noteq> None \<or> rule_weekday now lower \<noteq> None \<or>
     rule_month now lower \<noteq> None \<or> rule_slash input \<noteq> None \<or> rule_iso input \<noteq> None \<or>
     rule_time now input \<noteq> None \<or> rule_ampm now lower \<noteq> None"
    unfolding rule_None_iff .
  then have "?P ?R1" by (rule s1)
  then show ?thesis
    unfolding parseDateTime_chain [OF assms(1,2,3), of np now] .
qed

lemma parseDateTime_unmatched:
  assumes "no_rule_matches input"
  shows "parseDateTime np now input =
     (if np input \<noteq> None then Inr (np input)
      else Inl (Error (''Cannot parse date/time: '' @ input)))"
proof -
  define lower where "lower = trim (toLowerCase input)"
  from assms have n: "lower \<noteq> ''today''" "lower \<noteq> ''tomorrow''" "relMatch lower = None"
    "dayMatch lower = None" "monthMatch lower = None" "dateTimeMatch input = None"
    "isoDateTimeMatch input = None" "timeMatch input = None" "ampmMatch lower = None"
    unfolding no_rule_matches_def Let_def lower_def by simp_all
  show ?thesis
    unfolding parseDateTime_chain [OF lower_def n(1,2), of np now]
    by (simp add: rule_none n)
qed

text \<open>
  C9. \<open>parseDateTime\<close> raises the error \<open>Cannot parse date/time: <input>\<close>, with the input
  as it was given, exactly when none of its explicit rules matches and the native parser
  of the platform gives no valid instant for the input; in every other case it returns
  a valid instant.
\<close>

theorem parseDateTime_error_iff:
  "(parseDateTime nativeParse now input = Inl (Error (''Cannot parse date/time: '' @ input)))
     = (no_rule_matches input \<and> nativeParse input = None) \<and>
   (\<exists>t. parseDateTime nativeParse now input = Inr (Some t))
     = (\<not> (no_rule_matches input \<and> nativeParse input = None))"
proof (cases "no_rule_matches input")
  case True
  from parseDateTime_unmatched [OF True, of nativeParse now] True show ?thesis
    by (cases "nativeParse input") auto
next
  case False
  define lower where "lower = trim (toLowerCase input)"
  have "\<exists>t. parseDateTime nativeParse now input = Inr (Some t)"
  proof (cases "lower = ''today'' \<or> lower = ''tomorrow''")
    case True
    with parseDateTime_literals [OF lower_def, of nativeParse now] show ?thesis by auto
  next
    case False
    with parseDateTime_matched [OF lower_def _ _ \<open>\<not> no_rule_matches input\<close>, of nativeParse now]
    show ?thesis by auto
  qed
  with False show ?thesis by auto
qed

text \<open>
  Witness: \<open>not a date\<close> matches no rule, so with a native parser that rejects it the error
  is raised; \<open>13:30\<close> matches a rule and gives today at 13:30.
\<close>

theorem parseDateTime_error_iff_witness:
  "parseDateTime (\<lambda>s. None) 1793615400123 ''not a date'' =
      Inl (Error ''Cannot parse date/time: not a date'') \<and>
   no_rule_matches ''not a date'' \<and>
   parseDateTime (\<lambda>s. None) 1793615400123 ''13:30'' = Inr (Some 1793626200000) \<and>
   \<not> no_rule_matches ''13:30''"
proof -
  have a: "parseDateTime (\<lambda>s. None) 1793615400123 ''not a date'' =
      Inl (Error (''Cannot parse date/time: '' @ ''not a date''))"
    by code_simp
  have b: "parseDateTime (\<lambda>s. None) 1793615400123 ''13:30'' = Inr (Some 1793626200000)"
    by code_simp
  from a parseDateTime_error_iff [of "\<lambda>s. None" 1793615400123 "''not a date''"]
  have "no_rule_matches ''not a date''" by blast
  moreover from b parseDateTime_error_iff [of "\<lambda>s. None" 1793615400123 "''13:30''"]
  have "\<not> no_rule_matches ''13:30''" by blast
  ultimately show ?thesis using a b by simp
qed

text \<open>
  C10. When the input is not the bare word \<open>today\<close> or \<open>tomorrow\<close> and one of the explicit
  rules matches it, the instant that \<open>parseDateTime\<close> returns has its seconds and its
  milliseconds equal to zero. The other results are the current instant for \<open>today\<close>,
  the current instant a day later for \<open>tomorrow\<close>, and what the native parser gives when
  no rule matches: only these can carry seconds.
\<close>

theorem parseDateTime_whole_minutes:
  assumes "lower = trim (toLowerCase input)"
  shows "(lower \<noteq> ''today'' \<and> lower \<noteq> ''tomorrow'' \<and> \<not> no_rule_matches input \<longrightarrow>
            (\<exists>t. parseDateTime nativeParse now input = Inr (Some t)) \<and>
            (\<forall>d. parseDateTime nativeParse now input = Inr d \<longrightarrow>
                 Date_getSeconds d = Some 0 \<and> Date_getMilliseconds d = Some 0)) \<and>
         (lower = ''today'' \<longrightarrow> parseDateTime nativeParse now input = Inr (Some now)) \<and>
         (lower = ''tomorrow'' \<longrightarrow>
            parseDateTime nativeParse now input = Inr (Some (now + msPerDay))) \<and>
         (no_rule_matches input \<and> nativeParse input \<noteq> None \<longrightarrow>
            parseDateTime nativeParse now input = Inr (nativeParse input))"
proof -
  have 1: "(\<exists>t. parseDateTime nativeParse now input = Inr (Some t)) \<and>
            (\<forall>d. parseDateTime nativeParse now input = Inr d \<longrightarrow>
                 Date_getSeconds d = Some 0 \<and> Date_getMilliseconds d = Some 0)"
    if "lower \<noteq> ''today''" "lower \<noteq> ''tomorrow''" "\<not> no_rule_matches input"
  proof -
    from parseDateTime_matched [OF assms that, of nativeParse now] obtain D h m where
      r: "parseDateTime nativeParse now input = Inr (Some (MakeDate D (MakeTime h m 0 0)))"
      by blast
    with whole_minute_seconds [of D h m] show ?thesis by simp
  qed
  have 2: "parseDateTime nativeParse now input = Inr (nativeParse input)"
    if "no_rule_matches input" "nativeParse input \<noteq> None"
    using parseDateTime_unmatched [OF that(1), of nativeParse now] that(2) by simp
  from 1 2 parseDateTime_literals [OF assms, of nativeParse now] show ?thesis by blast
qed

text \<open>
  Witness, at 10:30:00.123 on 2 November 2026: \<open>tomorrow 10:00\<close> is 10:00:00.000 on the
  next day, while \<open>today\<close> is the current instant, with its 123 milliseconds.
\<close>

theorem parseDateTime_whole_minutes_witness:
  "parseDateTime (\<lambda>s. None) 1793615400123 ''tomorrow 10:00'' = Inr (Some 1793700000000) \<and>
   Date_getSeconds (Some 1793700000000) = Some 0 \<and>
   Date_getMilliseconds (Some 1793700000000) = Some 0 \<and>
   parseDateTime (\<lambda>s. None) 1793615400123 ''today'' = Inr (Some 1793615400123) \<and>
   Date_getMilliseconds (Some 1793615400123) = Some 123"
proof -
  have l: "''tomorrow 10:00'' = trim (toLowerCase ''tomorrow 10:00'')"
    and n: "\<not> no_rule_matches ''tomorrow 10:00''"
    and l2: "''today'' = trim (toLowerCase ''today'')"
    by code_simp+
  have v: "parseDateTime (\<lambda>s. None) 1793615400123 ''tomorrow 10:00'' = Inr (Some 1793700000000)"
    by code_simp
  from parseDateTime_whole_minutes [OF l, of "\<lambda>s. None" 1793615400123] n v
  have "Date_getSeconds (Some 1793700000000) = Some 0 \<and>
        Date_getMilliseconds (Some 1793700000000) = Some 0"
    by simp
  moreover from parseDateTime_whole_minutes [OF l2, of "\<lambda>s. None" 1793615400123]
  have "parseDateTime (\<lambda>s. None) 1793615400123 ''today'' = Inr (Some 1793615400123)"
    by simp
  moreover have "Date_getMilliseconds (Some 1793615400123) = Some 123"
    by (simp add: Date_getMilliseconds_def msPerSecond_def)
  ultimately show ?thesis using v by simp
qed

text \<open>
  C3. In each rule of \<open>parseDateTime\<close> that takes a time with a meridiem (\<open>today\<close> or
  \<open>tomorrow\<close> with a time, a weekday, a month name, and a bare time with \<open>am\<close> or \<open>pm\<close>),
  when the rule is the first that matches, the time of day that is set is the hour H
  converted by the 12-hour rule (H + 12 for \<open>pm\<close> and H < 12, 0 for \<open>am\<close> and H = 12, H
  otherwise) and the minutes that were written, 0 when they were omitted, with zero
  seconds and milliseconds, on the day the rule selects. An hour below 24 and a minute
  below 60 set in this way are the hour and the minute the returned instant shows.
\<close>

theorem parseDateTime_meridiem:
  assumes "lower = trim (toLowerCase input)"
  shows
    "(relMatch lower = Some (rel, hour, mins, Some ampm) \<longrightarrow>
        parseDateTime nativeParse now input =
          Inr (Some (MakeDate (Day now + (if rel = ''tomorrow'' then 1 else 0))
                 (MakeTime (hour12 (radixValue 10 hour) (Some (toLowerCase ampm)))
                    (minutes_value mins) 0 0)))) \<and>
     (lower \<noteq> ''today'' \<and> lower \<noteq> ''tomorrow'' \<and> relMatch lower = None \<and>
      dayMatch lower = Some (next, day, hour, mins, Some ampm) \<longrightarrow>
        parseDateTime nativeParse now input =
          Inr (Some (MakeDate
                 (Day now +
                    (let k = findIndex (\<lambda>w. w = toLowerCase day) weekdays - WeekDay now
                     in if k \<le> 0 \<or> next \<noteq> None then k + 7 else k))
                 (MakeTime (hour12 (radixValue 10 hour) (Some (toLowerCase ampm)))
                    (minutes_value mins) 0 0)))) \<and>
     (lower \<noteq> ''today'' \<and> lower \<noteq> ''tomorrow'' \<and> relMatch lower = None \<and>
      dayMatch lower = None \<and>
      monthMatch lower = Some (month, day, year, Some (hour, mins, Some ampm)) \<longrightarrow>
        parseDateTime nativeParse now input =
          Inr (Some (MakeDate
                 (MakeDay
                    (MakeFullYear
                       (case year of None \<Rightarrow> YearFromTime now | Some y \<Rightarrow> radixValue 10 y))
                    (findIndex (\<lambda>m. startsWith (toLowerCase month) m) months)
                    (radixValue 10 day))
                 (MakeTime (hour12 (radixValue 10 hour) (Some (toLowerCase ampm)))
                    (minutes_value mins) 0 0)))) \<and>
     (lower \<noteq> ''today'' \<and> lower \<noteq> ''tomorrow'' \<and> relMatch lower = None \<and>
      dayMatch lower = None \<and> monthMatch lower = None \<and> dateTimeMatch input = None \<and>
      isoDateTimeMatch input = None \<and> timeMatch input = None \<and>
      ampmMatch lower = Some (hour, mins, ampm) \<longrightarrow>
        parseDateTime nativeParse now input =
          Inr (Some (MakeDate (Day now)
                 (MakeTime (hour12 (radixValue 10 hour) (Some ampm))
                    (minutes_value mins) 0 0)))) \<and>
     (\<forall>D h m. 0 \<le> h \<and> h < 24 \<and> 0 \<le> m \<and> m < 60 \<longrightarrow>
        Date_getHours (Some (MakeDate D (MakeTime h m 0 0))) = Some h \<and>
        Date_getMinutes (Some (MakeDate D (MakeTime h m 0 0))) = Some m)"
proof -
  have r3: "parseDateTime nativeParse now input =
          Inr (Some (MakeDate (Day now + (if rel = ''tomorrow'' then 1 else 0))
                 (MakeTime (hour12 (radixValue 10 hour) (Some (toLowerCase ampm)))
                    (minutes_value mins) 0 0)))"
    if m: "relMatch lower = Some (rel, hour, mins, Some ampm)"
  proof -
    from m relMatch_literals have "lower \<noteq> ''today''" "lower \<noteq> ''tomorrow''" by auto
    from parseDateTime_chain [OF assms this, of nativeParse now] rule_relative_eq [OF m, of now]
    show ?thesis by simp
  qed
  have r4: "parseDateTime nativeParse now input =
          Inr (Some (MakeDate
                 (Day now +
                    (let k = findIndex (\<lambda>w. w = toLowerCase day) weekdays - WeekDay now
                     in if k \<le> 0 \<or> next \<noteq> None then k + 7 else k))
                 (MakeTime (hour12 (radixValue 10 hour) (Some (toLowerCase ampm)))
                    (minutes_value mins) 0 0)))"
    if "lower \<noteq> ''today''" "lower \<noteq> ''tomorrow''" "relMatch lower = None"
      and m: "dayMatch lower = Some (next, day, hour, mins, Some ampm)"
    using parseDateTime_chain [OF assms that(1,2), of nativeParse now]
      rule_none(1) [OF that(3), of now] rule_weekday_eq [OF m, of now]
    by simp
  have r5: "parseDateTime nativeParse now input =
          Inr (Some (MakeDate
                 (MakeDay
                    (MakeFullYear
                       (case year of None \<Rightarrow> YearFromTime now | Some y \<Rightarrow> radixValue 10 y))
                    (findIndex (\<lambda>m. startsWith (toLowerCase month) m) months)
                    (radixValue 10 day))
                 (MakeTime (hour12 (radixValue 10 hour) (Some (toLowerCase ampm)))
                    (minutes_value mins) 0 0)))"
    if "lower \<noteq> ''today''" "lower \<noteq> ''tomorrow''" "relMatch lower = None"
      "dayMatch lower = None"
      and m: "monthMatch lower = Some (month, day, year, Some (hour, mins, Some ampm))"
    using parseDateTime_chain [OF assms that(1,2), of nativeParse now]
      rule_none(1) [OF that(3), of now] rule_none(2) [OF that(4), of now]
      rule_month_eq [OF m, of now]
    by simp
  have r9: "parseDateTime nativeParse now input =
          Inr (Some (MakeDate (Day now)
                 (MakeTime (hour12 (radixValue 10 hour) (Some ampm))
                    (minutes_value mins) 0 0)))"
    if "lower \<noteq> ''today''" "lower \<noteq> ''tomorrow''" "relMatch lower = None"
      "dayMatch lower = None" "monthMatch lower = None" "dateTimeMatch input = None"
      "isoDateTimeMatch input = None" "timeMatch input = None"
      and m: "ampmMatch lower = Some (hour, mins, ampm)"
    using parseDateTime_chain [OF assms that(1,2), of nativeParse now]
      rule_none(1) [OF that(3), of now] rule_none(2) [OF that(4), of now]
      rule_none(3) [OF that(5), of now] rule_none(4) [OF that(6)] rule_none(5) [OF that(7)]
      rule_none(6) [OF that(8), of now] rule_ampm_eq [OF m, of now]
    by simp
  from r3 r4 r5 r9 clock_of_day show ?thesis by blast
qed

text \<open>
  Witness, at 10:30:00.123 on Monday 2 November 2026: \<open>tomorrow 2pm\<close> is 3 November at
  14:00, \<open>Next Friday 3:05PM\<close> is 13 November at 15:05, \<open>jan 15 2pm\<close> is 15 January 2026 at
  14:00 and \<open>12am\<close> is 2 November at 0:00.
\<close>

theorem parseDateTime_meridiem_witness:
  "parseDateTime (\<lambda>s. None) 1793615400123 ''tomorrow 2pm'' = Inr (Some 1793714400000) \<and>
   Date_getDate (Some 1793714400000) = Some 3 \<and>
   Date_getHours (Some 1793714400000) = Some 14 \<and>
   Date_getMinutes (Some 1793714400000) = Some 0 \<and>
   parseDateTime (\<lambda>s. None) 1793615400123 ''Next Friday 3:05PM'' = Inr (Some 1794582300000) \<and>
   Date_getDate (Some 1794582300000) = Some 13 \<and>
   Date_getHours (Some 1794582300000) = Some 15 \<and>
   Date_getMinutes (Some 1794582300000) = Some 5 \<and>
   parseDateTime (\<lambda>s. None) 1793615400123 ''jan 15 2pm'' = Inr (Some 1768485600000) \<and>
   Date_getFullYear (Some 1768485600000) = Some 2026 \<and>
   Date_getHours (Some 1768485600000) = Some 14 \<and>
   parseDateTime (\<lambda>s. None) 1793615400123 ''12am'' = Inr (Some 1793577600000) \<and>
   Date_getHours (Some 1793577600000) = Some 0"
proof -
  have l1: "''tomorrow 2pm'' = trim (toLowerCase ''tomorrow 2pm'')"
    and l2: "''next friday 3:05pm'' = trim (toLowerCase ''Next Friday 3:05PM'')"
    and l3: "''jan 15 2pm'' = trim (toLowerCase ''jan 15 2pm'')"
    and l4: "''12am'' = trim (toLowerCase ''12am'')"
    by code_simp+
  have p1: "relMatch ''tomorrow 2pm'' = Some (''tomorrow'', ''2'', None, Some ''pm'')"
    by code_simp
  have p2: "''next friday 3:05pm'' \<noteq> ''today'' \<and> ''next friday 3:05pm'' \<noteq> ''tomorrow'' \<and>
      relMatch ''next friday 3:05pm'' = None \<and>
      dayMatch ''next friday 3:05pm'' = Some (Some ''next '', ''friday'', ''3'', Some ''05'', Some ''pm'')"
    by code_simp
  have p3: "''jan 15 2pm'' \<noteq> ''today'' \<and> ''jan 15 2pm'' \<noteq> ''tomorrow'' \<and>
      relMatch ''jan 15 2pm'' = None \<and> dayMatch ''jan 15 2pm'' = None \<and>
      monthMatch ''jan 15 2pm'' = Some (''jan'', ''15'', None, Some (''2'', None, Some ''pm''))"
    by code_simp
  have p4: "''12am'' \<noteq> ''today'' \<and> ''12am'' \<noteq> ''tomorrow'' \<and> relMatch ''12am'' = None \<and>
      dayMatch ''12am'' = None \<and> monthMatch ''12am'' = None \<and> dateTimeMatch ''12am'' = None \<and>
      isoDateTimeMatch ''12am'' = None \<and> timeMatch ''12am'' = None \<and>
      ampmMatch ''12am'' = Some (''12'', None, ''am'')"
    by code_simp
  note c1 = parseDateTime_meridiem [OF l1, THEN conjunct1, THEN mp, OF p1]
  note c2 = parseDateTime_meridiem [OF l2, THEN conjunct2, THEN conjunct1, THEN mp, OF p2]
  note c3 = parseDateTime_meridiem [OF l3, THEN conjunct2, THEN conjunct2, THEN conjunct1,
      THEN mp, OF p3]
  note c4 = parseDateTime_meridiem [OF l4, THEN conjunct2, THEN conjunct2, THEN conjunct2,
      THEN conjunct1, THEN mp, OF p4]
  have "parseDateTime (\<lambda>s. None) 1793615400123 ''tomorrow 2pm'' = Inr (Some 1793714400000)"
    unfolding c1 by code_simp
  moreover
  have "parseDateTime (\<lambda>s. None) 1793615400123 ''Next Friday 3:05PM'' = Inr (Some 1794582300000)"
    unfolding c2 by code_simp
  moreover
  have "parseDateTime (\<lambda>s. None) 1793615400123 ''jan 15 2pm'' = Inr (Some 1768485600000)"
    unfolding c3 by code_simp
  moreover
  have "parseDateTime (\<lambda>s. None) 1793615400123 ''12am'' = Inr (Some 1793577600000)"
    unfolding c4 by code_simp
  moreover
  have "Date_getDate (Some 1793714400000) = Some 3 \<and>
   Date_getHours (Some 1793714400000) = Some 14 \<and>
   Date_getMinutes (Some 1793714400000) = Some 0 \<and>
   Date_getDate (Some 1794582300000) = Some 13 \<and>
   Date_getHours (Some 1794582300000) = Some 15 \<and>
   Date_getMinutes (Some 1794582300000) = Some 5 \<and>
   Date_getFullYear (Some 1768485600000) = Some 2026 \<and>
   Date_getHours (Some 1768485600000) = Some 14 \<and>
   Date_getHours (Some 1793577600000) = Some 0"
    by code_simp
  ultimately show ?thesis by simp
qed

end
